theory Spec2Isabelle
  imports Main "HOL-Library.AList"
begin

section \<open>Pre-flight validation of a Terraform plan (validate\_deployment.py)\<close>

text \<open>
  The script reads a Terraform plan as JSON, selects the resource changes of four
  high-risk kinds that are created or updated, builds a minimal ARM template for each,
  sends it to the ARM "deployment validate" endpoint and collects one text block per
  rejected template. This theory embeds the template synthesis, the validation call and
  the loop with its verdict, and proves the properties the specification states of them.
\<close>

subsection \<open>Values and exceptions of the Python program\<close>

text \<open>
  What \<open>json.load\<close> and \<open>resp.json()\<close> return: \<open>None\<close>, booleans, integers, strings,
  lists and dicts with string keys. A dict is the list of its items in insertion order;
  a Python dict has no key twice. Numbers with a fraction are outside the model, and a
  character is a code point below 256.
\<close>

datatype json =
    JNull
  | JBool bool
  | JInt int
  | JStr string
  | JArr "json list"
  | JObj "(string \<times> json) list"

text \<open>The exceptions the modelled code can raise; none of them is caught anywhere.\<close>

datatype py_error =
    KeyError string
  | IndexError
  | TypeError
  | AttributeError
  | ValueError string
  | JSONDecodeError
  | RequestException
  | CredentialUnavailableError

text \<open>Sequencing of statements that may raise: the first exception ends the rest.\<close>

fun bindE :: "py_error + 'a \<Rightarrow> ('a \<Rightarrow> py_error + 'b) \<Rightarrow> py_error + 'b" where
  "bindE (Inl e) f = Inl e"
| "bindE (Inr x) f = f x"

subsection \<open>The Python operations the script uses\<close>

text \<open>\<open>d[k]\<close>: a missing key raises KeyError, a value that is no dict raises TypeError
  (a list or a string indexed by a string, \<open>None\<close> or a number subscripted).\<close>

fun subscript :: "json \<Rightarrow> string \<Rightarrow> py_error + json" where
  "subscript (JObj kvs) k = (case map_of kvs k of None \<Rightarrow> Inl (KeyError k) | Some v \<Rightarrow> Inr v)"
| "subscript _ k = Inl TypeError"

text \<open>\<open>xs[i]\<close> for an integer \<open>i \<ge> 0\<close>.\<close>

fun item :: "json \<Rightarrow> nat \<Rightarrow> py_error + json" where
  "item (JArr xs) i = (if i < length xs then Inr (xs ! i) else Inl IndexError)"
| "item (JStr s) i = (if i < length s then Inr (JStr [s ! i]) else Inl IndexError)"
| "item (JObj kvs) i = Inl (KeyError ''0'')"
| "item _ i = Inl TypeError"

text \<open>\<open>d.get(k, default)\<close>: the value under the key, the default when the dict has
  no such key. Only a dict has the method.\<close>

definition get_or :: "(string \<times> json) list \<Rightarrow> string \<Rightarrow> json \<Rightarrow> json" where
  "get_or kvs k dflt = (case map_of kvs k of None \<Rightarrow> dflt | Some v \<Rightarrow> v)"

fun dict_get :: "json \<Rightarrow> string \<Rightarrow> json \<Rightarrow> py_error + json" where
  "dict_get (JObj kvs) k dflt = Inr (get_or kvs k dflt)"
| "dict_get _ k dflt = Inl AttributeError"

text \<open>\<open>s.replace(old, new)\<close> for a one-character \<open>old\<close>; only a string has the method.\<close>

definition replace_char :: "char \<Rightarrow> string \<Rightarrow> string \<Rightarrow> string" where
  "replace_char old new s = concat (map (\<lambda>c. if c = old then new else [c]) s)"

fun str_replace :: "json \<Rightarrow> char \<Rightarrow> string \<Rightarrow> py_error + json" where
  "str_replace (JStr s) old new = Inr (JStr (replace_char old new s))"
| "str_replace _ old new = Inl AttributeError"

text \<open>Truth value of a value in \<open>if\<close>, \<open>or\<close> and a conditional expression.\<close>

fun truthy :: "json \<Rightarrow> bool" where
  "truthy JNull = False"
| "truthy (JBool b) = b"
| "truthy (JInt i) = (i \<noteq> 0)"
| "truthy (JStr s) = (s \<noteq> [])"
| "truthy (JArr xs) = (xs \<noteq> [])"
| "truthy (JObj kvs) = (kvs \<noteq> [])"

definition py_or :: "json \<Rightarrow> json \<Rightarrow> json" where
  "py_or a b = (if truthy a then a else b)"

text \<open>\<open>x in xs\<close> and \<open>x == s\<close> for strings \<open>xs\<close>, \<open>s\<close>: a value that is no string
  equals none of them.\<close>

fun py_in :: "json \<Rightarrow> string list \<Rightarrow> bool" where
  "py_in (JStr s) xs = (s \<in> set xs)"
| "py_in _ xs = False"

text \<open>Iteration (\<open>for x in v\<close>): a list gives its elements, a string its characters, a
  dict its keys; anything else is not iterable.\<close>

fun py_iter :: "json \<Rightarrow> py_error + json list" where
  "py_iter (JArr xs) = Inr xs"
| "py_iter (JStr s) = Inr (map (\<lambda>c. JStr [c]) s)"
| "py_iter (JObj kvs) = Inr (map (\<lambda>kv. JStr (fst kv)) kvs)"
| "py_iter _ = Inl TypeError"

text \<open>\<open>set(v)\<close>: the elements of the iteration, which must be hashable (no list, no
  dict). The set is kept as the list of its elements; only membership is used.\<close>

fun hashable :: "json \<Rightarrow> bool" where
  "hashable (JArr xs) = False"
| "hashable (JObj kvs) = False"
| "hashable _ = True"

definition py_set :: "json \<Rightarrow> py_error + json list" where
  "py_set v = bindE (py_iter v) (\<lambda>xs. if list_all hashable xs then Inr xs else Inl TypeError)"

text \<open>\<open>s.intersection(t)\<close> for a set \<open>t\<close> of strings.\<close>

definition intersection :: "json list \<Rightarrow> string list \<Rightarrow> json list" where
  "intersection xs t = filter (\<lambda>x. py_in x t) xs"

subsection \<open>Rendering values as text\<close>

text \<open>Decimal digits of a natural number and of an integer, as \<open>str\<close> prints them.\<close>

fun digits :: "nat \<Rightarrow> string" where
  "digits n = (if n < 10 then [char_of (48 + n)] else digits (n div 10) @ [char_of (48 + n mod 10)])"

declare digits.simps [simp del]

definition str_int :: "int \<Rightarrow> string" where
  "str_int i = (if i < 0 then CHR ''-'' # digits (nat (- i)) else digits (nat i))"

definition hex_digit :: "nat \<Rightarrow> char" where
  "hex_digit n = (if n < 10 then char_of (48 + n) else char_of (87 + n))"

definition hex2 :: "char \<Rightarrow> string" where
  "hex2 c = [hex_digit (of_char c div 16), hex_digit (of_char c mod 16)]"

text \<open>\<open>repr\<close> of a string: single quotes, unless the string has a single quote and no
  double quote; backslash, the chosen quote, tab, newline and carriage return escaped,
  other unprintable characters as \<open>\xhh\<close>.\<close>

definition printable :: "char \<Rightarrow> bool" where
  "printable c = (let n = (of_char c :: nat) in (32 \<le> n \<and> n < 127) \<or> (161 \<le> n \<and> n \<noteq> 173))"

definition repr_char :: "char \<Rightarrow> char \<Rightarrow> string" where
  "repr_char q c =
     (if c = q \<or> c = CHR 0x5C then [CHR 0x5C, c]
      else if c = CHR 0x09 then [CHR 0x5C, CHR ''t'']
      else if c = CHR 0x0A then [CHR 0x5C, CHR ''n'']
      else if c = CHR 0x0D then [CHR 0x5C, CHR ''r'']
      else if printable c then [c]
      else [CHR 0x5C, CHR ''x''] @ hex2 c)"

definition repr_str :: "string \<Rightarrow> string" where
  "repr_str s =
     (let q = (if CHR 0x27 \<in> set s \<and> CHR 0x22 \<notin> set s then CHR 0x22 else CHR 0x27)
      in [q] @ concat (map (repr_char q) s) @ [q])"

text \<open>\<open>sep.join(xs)\<close>.\<close>

fun join :: "string \<Rightarrow> string list \<Rightarrow> string" where
  "join sep [] = []"
| "join sep [x] = x"
| "join sep (x # y # ys) = x @ sep @ join sep (y # ys)"

text \<open>\<open>repr(v)\<close>, and \<open>str(v)\<close> as an f-string field prints a value: they differ on a
  string only.\<close>

fun py_repr :: "json \<Rightarrow> string"
  and py_repr_items :: "json list \<Rightarrow> string list"
  and py_repr_pairs :: "(string \<times> json) list \<Rightarrow> string list" where
  "py_repr JNull = ''None''"
| "py_repr (JBool b) = (if b then ''True'' else ''False'')"
| "py_repr (JInt i) = str_int i"
| "py_repr (JStr s) = repr_str s"
| "py_repr (JArr xs) = ''['' @ join '', '' (py_repr_items xs) @ '']''"
| "py_repr (JObj kvs) = ''{'' @ join '', '' (py_repr_pairs kvs) @ ''}''"
| "py_repr_items [] = []"
| "py_repr_items (x # xs) = py_repr x # py_repr_items xs"
| "py_repr_pairs [] = []"
| "py_repr_pairs (kv # kvs) = (repr_str (fst kv) @ '': '' @ py_repr (snd kv)) # py_repr_pairs kvs"

fun py_str :: "json \<Rightarrow> string" where
  "py_str (JStr s) = s"
| "py_str v = py_repr v"

text \<open>\<open>json.dumps(v, indent=2)\<close>: every character outside the printable ASCII range, the
  double quote and the backslash are escaped; a non-empty list or dict has one member
  per line, indented two spaces more than its parent.\<close>

definition dumps_char :: "char \<Rightarrow> string" where
  "dumps_char c =
     (if c = CHR 0x22 \<or> c = CHR 0x5C then [CHR 0x5C, c]
      else if c = CHR 0x0A then [CHR 0x5C, CHR ''n'']
      else if c = CHR 0x0D then [CHR 0x5C, CHR ''r'']
      else if c = CHR 0x09 then [CHR 0x5C, CHR ''t'']
      else if c = CHR 0x08 then [CHR 0x5C, CHR ''b'']
      else if c = CHR 0x0C then [CHR 0x5C, CHR ''f'']
      else if 32 \<le> (of_char c :: nat) \<and> (of_char c :: nat) < 127 then [c]
      else [CHR 0x5C, CHR ''u'', CHR ''0'', CHR ''0''] @ hex2 c)"

definition dumps_str :: "string \<Rightarrow> string" where
  "dumps_str s = [CHR 0x22] @ concat (map dumps_char s) @ [CHR 0x22]"

definition newline_indent :: "nat \<Rightarrow> string" where
  "newline_indent n = CHR 0x0A # replicate n CHR '' ''"

fun dumps :: "nat \<Rightarrow> json \<Rightarrow> string"
  and dumps_items :: "nat \<Rightarrow> json list \<Rightarrow> string list"
  and dumps_pairs :: "nat \<Rightarrow> (string \<times> json) list \<Rightarrow> string list" where
  "dumps n JNull = ''null''"
| "dumps n (JBool b) = (if b then ''true'' else ''false'')"
| "dumps n (JInt i) = str_int i"
| "dumps n (JStr s) = dumps_str s"
| "dumps n (JArr xs) =
     (if xs = [] then ''[]''
      else ''['' @ newline_indent (n + 2)
           @ join ('','' @ newline_indent (n + 2)) (dumps_items (n + 2) xs)
           @ newline_indent n @ '']'')"
| "dumps n (JObj kvs) =
     (if kvs = [] then ''{}''
      else ''{'' @ newline_indent (n + 2)
           @ join ('','' @ newline_indent (n + 2)) (dumps_pairs (n + 2) kvs)
           @ newline_indent n @ ''}'')"
| "dumps_items n [] = []"
| "dumps_items n (x # xs) = dumps n x # dumps_items n xs"
| "dumps_pairs n [] = []"
| "dumps_pairs n (kv # kvs) = (dumps_str (fst kv) @ '': '' @ dumps n (snd kv)) # dumps_pairs n kvs"

definition json_dumps_indent2 :: "json \<Rightarrow> string" where
  "json_dumps_indent2 v = dumps 0 v"

subsection \<open>Configuration\<close>

definition HIGH_RISK_RESOURCES :: "string list" where
  "HIGH_RISK_RESOURCES =
     [''azurerm_firewall'', ''azurerm_application_gateway'', ''azurerm_lb'',
      ''azurerm_bastion_host'']"

definition VALID_ACTIONS :: "string list" where
  "VALID_ACTIONS = [''create'', ''update'']"

subsection \<open>generate\_arm\_template\<close>

text \<open>The expression \<open>resource["change"]["after"]\<close>, which the function evaluates once
  for the location and once more in each branch that reads a SKU.\<close>

definition change_after :: "json \<Rightarrow> py_error + json" where
  "change_after resource =
     bindE (subscript resource ''change'') (\<lambda>change. subscript change ''after'')"

text \<open>The dict literal \<open>template\<close> around its one resource \<open>res\<close>. The function changes
  \<open>res\<close> through the alias \<open>template["resources"][0]\<close>, so the template returned holds
  the resource as it is after the branch.\<close>

definition template_of :: "(string \<times> json) list \<Rightarrow> json" where
  "template_of res =
     JObj [(''$schema'',
              JStr ''https://schema.management.azure.com/schemas/2019-04-01/deploymentTemplate.json#''),
           (''contentVersion'', JStr ''1.0.0.0''),
           (''resources'', JArr [JObj res])]"

text \<open>An assignment \<open>res[k] = v\<close> is \<open>AList.update k v res\<close>: an existing key keeps its
  place, a new key goes to the end.\<close>

definition generate_arm_template :: "json \<Rightarrow> py_error + json" where
  "generate_arm_template resource =
     bindE (subscript resource ''type'') (\<lambda>res_type.
     bindE (subscript resource ''address'') (\<lambda>address.
     bindE (str_replace address CHR ''.'' ''-'') (\<lambda>n1.
     bindE (str_replace n1 CHR ''['' ''-'') (\<lambda>n2.
     bindE (str_replace n2 CHR '']'' []) (\<lambda>res_name.
     bindE (change_after resource) (\<lambda>after0.
     bindE (dict_get after0 ''location'' (JStr ''eastus'')) (\<lambda>location.
     let res = [(''type'', JNull),
                (''apiVersion'', JStr ''2022-08-01''),
                (''name'', res_name),
                (''location'', location)]
     in
       if res_type = JStr ''azurerm_firewall'' then
         bindE (change_after resource) (\<lambda>after.
         bindE (dict_get after ''sku_name'' (JStr ''AZFW_VNet'')) (\<lambda>sku.
         Inr (template_of
               (AList.update ''sku'' (JObj [(''name'', sku), (''tier'', JStr ''Standard'')])
                 (AList.update ''type'' (JStr ''Microsoft.Network/azureFirewalls'') res)))))
       else if res_type = JStr ''azurerm_application_gateway'' then
         bindE (change_after resource) (\<lambda>after.
         bindE (dict_get after ''sku_name'' (JStr ''WAF_v2'')) (\<lambda>sku_name.
         Inr (template_of
               (AList.update ''sku'' (JObj [(''name'', sku_name), (''tier'', JStr ''WAF'')])
                 (AList.update ''type'' (JStr ''Microsoft.Network/applicationGateways'') res)))))
       else if res_type = JStr ''azurerm_lb'' then
         bindE (change_after resource) (\<lambda>after.
         bindE (dict_get after ''sku'' (JStr ''Standard'')) (\<lambda>sku_name.
         Inr (template_of
               (AList.update ''sku'' (JObj [(''name'', sku_name)])
                 (AList.update ''type'' (JStr ''Microsoft.Network/loadBalancers'') res)))))
       else if res_type = JStr ''azurerm_bastion_host'' then
         Inr (template_of (AList.update ''type'' (JStr ''Microsoft.Network/bastionHosts'') res))
       else Inl (ValueError (''Unknown resource type '' @ py_str res_type)))))))))"

subsection \<open>run\_arm\_validate\<close>

text \<open>
  What lies outside the program, at the \<open>n\<close>-th call of \<open>run_arm_validate\<close>: the
  identifier \<open>uuid.uuid4()\<close> draws, and what becomes of the request to the given URL with
  the given body. Either the credential yields no token (\<open>get_token\<close> raises), or
  \<open>requests.post\<close> raises, or a response arrives with a status code and a content that
  \<open>resp.json()\<close> parses (\<open>Some\<close>) or not.
\<close>

datatype http_outcome =
    No_token
  | No_response
  | Response nat "json option"

record world =
  uuid4 :: "nat \<Rightarrow> string"
  answer :: "nat \<Rightarrow> string \<Rightarrow> json \<Rightarrow> http_outcome"

definition validate_url :: "string \<Rightarrow> string \<Rightarrow> string \<Rightarrow> string" where
  "validate_url subscription_id resource_group deployment_name =
     ''https://management.azure.com/subscriptions/'' @ subscription_id
     @ ''/resourceGroups/'' @ resource_group
     @ ''/providers/Microsoft.Resources/deployments/'' @ deployment_name
     @ ''/validate?api-version=2021-04-01''"

definition validate_body :: "json \<Rightarrow> json" where
  "validate_body template =
     JObj [(''properties'',
            JObj [(''mode'', JStr ''Incremental''),
                  (''template'', template),
                  (''parameters'', JObj [])])]"

text \<open>The parameter \<open>location\<close> is not used by the function. The content is parsed
  before the status is looked at.\<close>

definition run_arm_validate ::
    "world \<Rightarrow> nat \<Rightarrow> string \<Rightarrow> string \<Rightarrow> json \<Rightarrow> json \<Rightarrow> py_error + bool \<times> string" where
  "run_arm_validate w n subscription_id resource_group location template =
     (let deployment_name = ''preflight-'' @ uuid4 w n;
          url = validate_url subscription_id resource_group deployment_name;
          body = validate_body template
      in case answer w n url body of
           No_token \<Rightarrow> Inl CredentialUnavailableError
         | No_response \<Rightarrow> Inl RequestException
         | Response status_code content \<Rightarrow>
             (case content of
                None \<Rightarrow> Inl JSONDecodeError
              | Some payload \<Rightarrow>
                  if status_code = 200 then Inr (True, ''Validation succeeded'')
                  else bindE (dict_get payload ''error'' payload) (\<lambda>error.
                       Inr (False, json_dumps_indent2 error))))"

subsection \<open>The loop over the plan and the verdict\<close>

text \<open>The state of the loop: the list \<open>errors\<close>, and a log of the calls of
  \<open>run_arm_validate\<close> that returned, each with the record it was made for, its
  arguments and the pair it returned. The program keeps no such log; the properties
  about calls need it.\<close>

record validate_call =
  for_resource :: json
  arg_subscription_id :: string
  arg_resource_group :: string
  arg_location :: json
  arg_template :: json
  returned :: "bool \<times> string"

record run_state =
  errors :: "string list"
  calls :: "validate_call list"

text \<open>The condition of the \<open>if\<close> in the loop, with the statement before it: the set of
  actions is built first, then the type is read.\<close>

definition in_scope :: "json \<Rightarrow> py_error + bool" where
  "in_scope resource =
     bindE (subscript resource ''change'') (\<lambda>change.
     bindE (dict_get change ''actions'' (JArr [])) (\<lambda>acts.
     bindE (py_set acts) (\<lambda>actions.
     bindE (subscript resource ''type'') (\<lambda>res_type.
     Inr (py_in res_type HIGH_RISK_RESOURCES \<and> intersection actions VALID_ACTIONS \<noteq> [])))))"

text \<open>The f-string appended to \<open>errors\<close>.\<close>

definition failure_block :: "json \<Rightarrow> json \<Rightarrow> json \<Rightarrow> json \<Rightarrow> string \<Rightarrow> string" where
  "failure_block address location sku zones msg =
     py_str address @ '' failed validation'' @ [CHR 0x0A]
     @ ''  Location : '' @ py_str location @ [CHR 0x0A]
     @ ''  SKU      : '' @ py_str sku @ [CHR 0x0A]
     @ ''  Zones    : '' @ (if truthy zones then py_str zones else ''none'') @ [CHR 0x0A]
     @ ''  Error    : '' @ msg @ [CHR 0x0A]"

text \<open>The diagnostic context read from the record: location from the template, zones
  and SKU from \<open>after\<close>.\<close>

definition context_sku :: "json \<Rightarrow> py_error + json" where
  "context_sku after =
     bindE (dict_get after ''sku_name'' JNull) (\<lambda>s1.
     if truthy s1 then Inr s1
     else bindE (dict_get after ''sku'' JNull) (\<lambda>s2.
          Inr (py_or s2 (JStr ''unknown''))))"

text \<open>One iteration of the loop.\<close>

definition step :: "world \<Rightarrow> string \<Rightarrow> json \<Rightarrow> run_state \<Rightarrow> py_error + run_state" where
  "step w subscription_id resource st =
     bindE (in_scope resource) (\<lambda>selected.
     if selected then
       bindE (generate_arm_template resource) (\<lambda>template.
       bindE (subscript template ''resources'') (\<lambda>resources.
       bindE (item resources 0) (\<lambda>res0.
       bindE (subscript res0 ''location'') (\<lambda>location.
       bindE (subscript resource ''change'') (\<lambda>change.
       bindE (dict_get change ''after'' (JObj [])) (\<lambda>after.
       bindE (dict_get after ''zones'' (JArr [])) (\<lambda>zones.
       bindE (context_sku after) (\<lambda>sku.
       bindE (run_arm_validate w (length (calls st)) subscription_id ''preflight-rg''
                location template) (\<lambda>r.
       let st1 = st\<lparr>calls := calls st @
                   [\<lparr>for_resource = resource,
                     arg_subscription_id = subscription_id,
                     arg_resource_group = ''preflight-rg'',
                     arg_location = location,
                     arg_template = template,
                     returned = r\<rparr>]\<rparr>
       in
       if \<not> fst r then
         bindE (subscript resource ''address'') (\<lambda>address.
         Inr (st1\<lparr>errors := errors st1 @
                [failure_block address location sku zones (snd r)]\<rparr>))
       else Inr st1)))))))))
     else Inr st)"

fun validate_loop :: "world \<Rightarrow> string \<Rightarrow> json list \<Rightarrow> run_state \<Rightarrow> py_error + run_state" where
  "validate_loop w subscription_id [] st = Inr st"
| "validate_loop w subscription_id (resource # rest) st =
     (case step w subscription_id resource st of
        Inl e \<Rightarrow> Inl e
      | Inr st' \<Rightarrow> validate_loop w subscription_id rest st')"

text \<open>The end of the script: what is printed (one entry per \<open>print\<close>) and the exit
  status of the process.\<close>

definition verdict :: "string list \<Rightarrow> string list \<times> nat" where
  "verdict errs =
     (if errs \<noteq> [] then
        (''Pre-flight validation failed for the following resources:'' # errs, 1)
      else ([''Pre-flight validation passed for all high-risk resources!''], 0))"

text \<open>The script from \<open>errors = []\<close> on, for a loaded plan and a selected subscription.
  An exception ends the process with a traceback and no verdict.\<close>

definition preflight ::
    "world \<Rightarrow> string \<Rightarrow> json \<Rightarrow> py_error + run_state \<times> string list \<times> nat" where
  "preflight w subscription_id plan =
     bindE (dict_get plan ''resource_changes'' (JArr [])) (\<lambda>rcs.
     bindE (py_iter rcs) (\<lambda>resources.
     bindE (validate_loop w subscription_id resources \<lparr>errors = [], calls = []\<rparr>) (\<lambda>st.
     Inr (st, verdict (errors st)))))"

subsection \<open>Notions used in the statements\<close>

text \<open>The name the template gives the resource: the address with every dot and every
  opening bracket turned into a hyphen and every closing bracket dropped, which is what
  the three \<open>replace\<close> calls of \<open>generate_arm_template\<close> do in a row.\<close>

definition res_name :: "string \<Rightarrow> string" where
  "res_name a = replace_char CHR '']'' [] (replace_char CHR ''['' ''-'' (replace_char CHR ''.'' ''-'' a))"

text \<open>A logged call \<open>c\<close> is the \<open>n\<close>-th call of the run: its record was selected, its
  template is the one synthesized for the record, the location passed is the location
  of the template's one resource, and \<open>run_arm_validate\<close>, called with the logged
  arguments, returned the logged pair. That pair is settled by the answer to the
  request: a parsed content arrived, and the call returned success for status 200, and
  for any other status the flag \<open>False\<close> with the dump of the member \<open>error\<close> of the
  object answered (of the object, when it has no such member).\<close>

definition call_made :: "world \<Rightarrow> string \<Rightarrow> nat \<Rightarrow> validate_call \<Rightarrow> bool" where
  "call_made w sub n c =
     (in_scope (for_resource c) = Inr True
    \<and> generate_arm_template (for_resource c) = Inr (arg_template c)
    \<and> arg_subscription_id c = sub
    \<and> arg_resource_group c = ''preflight-rg''
    \<and> (\<exists>res. subscript (arg_template c) ''resources'' = Inr (JArr [JObj res])
            \<and> map_of res ''location'' = Some (arg_location c))
    \<and> run_arm_validate w n sub ''preflight-rg'' (arg_location c) (arg_template c)
        = Inr (returned c)
    \<and> (\<exists>status_code payload.
           answer w n (validate_url sub ''preflight-rg'' (''preflight-'' @ uuid4 w n))
             (validate_body (arg_template c)) = Response status_code (Some payload)
         \<and> (status_code = 200 \<or> (\<exists>kvs. payload = JObj kvs))
         \<and> returned c =
             (if status_code = 200 then (True, ''Validation succeeded'')
              else (False,
                    json_dumps_indent2
                      (case payload of JObj kvs \<Rightarrow> get_or kvs ''error'' payload
                       | _ \<Rightarrow> payload)))))"

text \<open>A call failed when the flag it returned is \<open>False\<close>.\<close>

definition failed :: "validate_call \<Rightarrow> bool" where
  "failed c = (\<not> fst (returned c))"

text \<open>A text block \<open>e\<close> of the list \<open>errors\<close> is the block of a logged call \<open>c\<close>, spelled
  out: five lines, the first with the address of the record the call was made for, then
  the location passed to the call, which is the \<open>location\<close> of the record's \<open>after\<close> or
  \<open>eastus\<close>, the SKU (\<open>sku_name\<close> of \<open>after\<close>, else its \<open>sku\<close>, else \<open>unknown\<close>), the zones
  of \<open>after\<close> (\<open>none\<close> when there are none), and the message the call returned.\<close>

definition block_for :: "validate_call \<Rightarrow> string \<Rightarrow> bool" where
  "block_for c e =
     (\<exists>a after.
        subscript (for_resource c) ''address'' = Inr (JStr a)
      \<and> change_after (for_resource c) = Inr (JObj after)
      \<and> arg_location c = get_or after ''location'' (JStr ''eastus'')
      \<and> e = a @ '' failed validation'' @ [CHR 0x0A]
            @ ''  Location : '' @ py_str (arg_location c) @ [CHR 0x0A]
            @ ''  SKU      : ''
            @ py_str (if truthy (get_or after ''sku_name'' JNull) then get_or after ''sku_name'' JNull
                      else if truthy (get_or after ''sku'' JNull) then get_or after ''sku'' JNull
                      else JStr ''unknown'')
            @ [CHR 0x0A]
            @ ''  Zones    : ''
            @ (if truthy (get_or after ''zones'' (JArr []))
               then py_str (get_or after ''zones'' (JArr [])) else ''none'')
            @ [CHR 0x0A]
            @ ''  Error    : '' @ snd (returned c) @ [CHR 0x0A])"

text \<open>Following the specification's words, not the code: a failure of the transport or of
  the authorization is an attempt that obtains no verdict of the provider on the
  template. No token, no response, and a response with status 401 or 403 are such.\<close>

definition transport_or_authorization_failure :: "http_outcome \<Rightarrow> bool" where
  "transport_or_authorization_failure outcome =
     (case outcome of
        No_token \<Rightarrow> True
      | No_response \<Rightarrow> True
      | Response status_code content \<Rightarrow> status_code = 401 \<or> status_code = 403)"

text \<open>Records used as concrete inputs: the firewall of the specification's scenario
  with the template synthesized for it, a load balancer that is deleted, a virtual
  network (no high-risk kind) that is created and one that is deleted, a bastion host without location, a load balancer whose
  \<open>change\<close> has no \<open>after\<close>, and a plan.\<close>

definition example_firewall :: json where
  "example_firewall =
     JObj [(''address'', JStr ''azurerm_firewall.hub[0]''),
           (''type'', JStr ''azurerm_firewall''),
           (''change'',
            JObj [(''actions'', JArr [JStr ''create'']),
                  (''after'', JObj [(''location'', JStr ''westus''),
                                    (''sku_name'', JStr ''AZFW_Hub'')])])]"

definition example_firewall_template :: json where
  "example_firewall_template =
     JObj [(''$schema'',
            JStr ''https://schema.management.azure.com/schemas/2019-04-01/deploymentTemplate.json#''),
           (''contentVersion'', JStr ''1.0.0.0''),
           (''resources'',
            JArr [JObj [(''type'', JStr ''Microsoft.Network/azureFirewalls''),
                        (''apiVersion'', JStr ''2022-08-01''),
                        (''name'', JStr ''azurerm_firewall-hub-0''),
                        (''location'', JStr ''westus''),
                        (''sku'', JObj [(''name'', JStr ''AZFW_Hub''),
                                        (''tier'', JStr ''Standard'')])]])]"

definition example_lb_delete :: json where
  "example_lb_delete =
     JObj [(''address'', JStr ''azurerm_lb.front''),
           (''type'', JStr ''azurerm_lb''),
           (''change'',
            JObj [(''actions'', JArr [JStr ''delete'']),
                  (''after'', JNull)])]"

definition example_vnet :: json where
  "example_vnet =
     JObj [(''address'', JStr ''azurerm_virtual_network.main''),
           (''type'', JStr ''azurerm_virtual_network''),
           (''change'',
            JObj [(''actions'', JArr [JStr ''create'']),
                  (''after'', JObj [(''location'', JStr ''westus'')])])]"


definition example_bastion_no_location :: json where
  "example_bastion_no_location =
     JObj [(''address'', JStr ''module.hub.azurerm_bastion_host.jump''),
           (''type'', JStr ''azurerm_bastion_host''),
           (''change'',
            JObj [(''actions'', JArr [JStr ''update'']),
                  (''after'', JObj [(''name'', JStr ''jump'')])])]"

definition example_lb_no_after :: json where
  "example_lb_no_after =
     JObj [(''address'', JStr ''azurerm_lb.front''),
           (''type'', JStr ''azurerm_lb''),
           (''change'', JObj [(''actions'', JArr [JStr ''create''])])]"

definition example_plan :: json where
  "example_plan = JObj [(''resource_changes'', JArr [example_vnet, example_firewall, example_lb_delete])]"

text \<open>Two providers: one answers every request with status 400 and the error
  \<open>SkuNotAvailable\<close>, one with status 401 and the error \<open>AuthenticationFailed\<close>. The
  text blocks the loop builds from the firewall record for these answers.\<close>

definition rejecting_world :: world where
  "rejecting_world =
     \<lparr>uuid4 = (\<lambda>n. ''00000000-0000-4000-8000-000000000000''),
      answer = (\<lambda>n url body.
        Response 400 (Some (JObj [(''error'', JObj [(''code'', JStr ''SkuNotAvailable'')])])))\<rparr>"

definition denied_world :: world where
  "denied_world =
     \<lparr>uuid4 = (\<lambda>n. ''00000000-0000-4000-8000-000000000000''),
      answer = (\<lambda>n url body.
        Response 401 (Some (JObj [(''error'', JObj [(''code'', JStr ''AuthenticationFailed'')])])))\<rparr>"

definition sku_block :: string where
  "sku_block =
     ''azurerm_firewall.hub[0] failed validation'' @ [CHR 0x0A]
     @ ''  Location : westus'' @ [CHR 0x0A]
     @ ''  SKU      : AZFW_Hub'' @ [CHR 0x0A]
     @ ''  Zones    : none'' @ [CHR 0x0A]
     @ ''  Error    : {'' @ [CHR 0x0A]
     @ ''  '' @ [CHR 0x22] @ ''code'' @ [CHR 0x22] @ '': '' @ [CHR 0x22] @ ''SkuNotAvailable'' @ [CHR 0x22] @ [CHR 0x0A]
     @ ''}'' @ [CHR 0x0A]"

definition denied_block :: string where
  "denied_block =
     ''azurerm_firewall.hub[0] failed validation'' @ [CHR 0x0A]
     @ ''  Location : westus'' @ [CHR 0x0A]
     @ ''  SKU      : AZFW_Hub'' @ [CHR 0x0A]
     @ ''  Zones    : none'' @ [CHR 0x0A]
     @ ''  Error    : {'' @ [CHR 0x0A]
     @ ''  '' @ [CHR 0x22] @ ''code'' @ [CHR 0x22] @ '': '' @ [CHR 0x22] @ ''AuthenticationFailed'' @ [CHR 0x22] @ [CHR 0x0A]
     @ ''}'' @ [CHR 0x0A]"

section \<open>Auxiliary facts\<close>

subsection \<open>Results and exceptions of the operations\<close>

lemma bindE_Inr_iff: "bindE m f = Inr y \<longleftrightarrow> (\<exists>x. m = Inr x \<and> f x = Inr y)"
  by (cases m) simp_all

lemma bindE_Inl_iff: "bindE m f = Inl e \<longleftrightarrow> m = Inl e \<or> (\<exists>x. m = Inr x \<and> f x = Inl e)"
  by (cases m) simp_all

lemma bindE_cong:
  "m = m' \<Longrightarrow> (\<And>x. m' = Inr x \<Longrightarrow> f x = g x) \<Longrightarrow> bindE m f = bindE m' g"
  by (cases m') simp_all

lemma bindE_returning_Inl_iff:
  "bindE m (\<lambda>r. Inr (g r)) = Inl e \<longleftrightarrow> m = Inl e"
  "Inl e = bindE m (\<lambda>r. Inr (g r)) \<longleftrightarrow> m = Inl e"
  by (cases m; auto)+

lemma subscript_Inr_iff:
  "subscript v k = Inr x \<longleftrightarrow> (\<exists>kvs. v = JObj kvs \<and> map_of kvs k = Some x)"
  by (cases v) (auto split: option.splits)

lemma subscript_Inl_D: "subscript v k = Inl e \<Longrightarrow> e = KeyError k \<or> e = TypeError"
  by (cases v) (auto split: option.splits)

lemma str_replace_Inr_iff:
  "str_replace v c n = Inr x \<longleftrightarrow> (\<exists>s. v = JStr s \<and> x = JStr (replace_char c n s))"
  by (cases v) auto

lemma str_replace_Inl_D: "str_replace v c n = Inl e \<Longrightarrow> e = AttributeError \<and> (\<forall>s. v \<noteq> JStr s)"
  by (cases v) auto

lemma dict_get_Inr_iff:
  "dict_get v k d = Inr x \<longleftrightarrow> (\<exists>kvs. v = JObj kvs \<and> x = get_or kvs k d)"
  by (cases v) auto

lemma dict_get_Inl_D: "dict_get v k d = Inl e \<Longrightarrow> e = AttributeError \<and> (\<forall>kvs. v \<noteq> JObj kvs)"
  by (cases v) auto

lemma py_in_iff: "py_in v xs \<longleftrightarrow> (\<exists>s. v = JStr s \<and> s \<in> set xs)"
  by (cases v) auto

lemma py_iter_Inl_D: "py_iter v = Inl e \<Longrightarrow> e = TypeError"
  by (cases v) auto

lemma change_after_Inl_D: "change_after r = Inl e \<Longrightarrow> (\<exists>k. e = KeyError k) \<or> e = TypeError"
  by (auto simp: change_after_def bindE_Inl_iff dest: subscript_Inl_D)

subsection \<open>The synthesized template\<close>

text \<open>For a record with a type, a string address and a dict \<open>after\<close>, the function is
  the dispatch on the type alone.\<close>

lemma generate_arm_template_wf:
  assumes "subscript resource ''type'' = Inr t"
    and "subscript resource ''address'' = Inr (JStr a)"
    and "change_after resource = Inr (JObj after)"
  shows "generate_arm_template resource =
     (let loc = get_or after ''location'' (JStr ''eastus'') in
      if t = JStr ''azurerm_firewall'' then
        Inr (template_of
          [(''type'', JStr ''Microsoft.Network/azureFirewalls''), (''apiVersion'', JStr ''2022-08-01''),
           (''name'', JStr (res_name a)), (''location'', loc),
           (''sku'', JObj [(''name'', get_or after ''sku_name'' (JStr ''AZFW_VNet'')), (''tier'', JStr ''Standard'')])])
      else if t = JStr ''azurerm_application_gateway'' then
        Inr (template_of
          [(''type'', JStr ''Microsoft.Network/applicationGateways''), (''apiVersion'', JStr ''2022-08-01''),
           (''name'', JStr (res_name a)), (''location'', loc),
           (''sku'', JObj [(''name'', get_or after ''sku_name'' (JStr ''WAF_v2'')), (''tier'', JStr ''WAF'')])])
      else if t = JStr ''azurerm_lb'' then
        Inr (template_of
          [(''type'', JStr ''Microsoft.Network/loadBalancers''), (''apiVersion'', JStr ''2022-08-01''),
           (''name'', JStr (res_name a)), (''location'', loc),
           (''sku'', JObj [(''name'', get_or after ''sku'' (JStr ''Standard''))])])
      else if t = JStr ''azurerm_bastion_host'' then
        Inr (template_of
          [(''type'', JStr ''Microsoft.Network/bastionHosts''), (''apiVersion'', JStr ''2022-08-01''),
           (''name'', JStr (res_name a)), (''location'', loc)])
      else Inl (ValueError (''Unknown resource type '' @ py_str t)))"
  using assms
  by (simp add: generate_arm_template_def res_name_def Let_def)

lemma generate_arm_template_Inr_D:
  assumes "generate_arm_template resource = Inr template"
  shows "\<exists>t a after. subscript resource ''type'' = Inr t \<and> subscript resource ''address'' = Inr (JStr a)
            \<and> change_after resource = Inr (JObj after)"
proof -
  from assms obtain t where t: "subscript resource ''type'' = Inr t"
    by (auto simp: generate_arm_template_def bindE_Inr_iff)
  from assms t obtain v where v: "subscript resource ''address'' = Inr v"
    by (auto simp: generate_arm_template_def bindE_Inr_iff)
  from assms t v obtain a where a: "v = JStr a"
    by (auto simp: generate_arm_template_def bindE_Inr_iff str_replace_Inr_iff)
  from assms t v a obtain af where af: "change_after resource = Inr af"
    by (auto simp: generate_arm_template_def bindE_Inr_iff)
  from assms t v a af obtain after where "af = JObj after"
    by (auto simp: generate_arm_template_def bindE_Inr_iff dict_get_Inr_iff)
  with t v a af show ?thesis by simp
qed

lemma template_location:
  assumes "generate_arm_template resource = Inr template"
    and "change_after resource = Inr (JObj after)"
  shows "\<exists>res. template = template_of res
            \<and> map_of res ''location'' = Some (get_or after ''location'' (JStr ''eastus''))"
proof -
  from generate_arm_template_Inr_D [OF assms(1)] assms(2)
  obtain t a where t: "subscript resource ''type'' = Inr t"
    and a: "subscript resource ''address'' = Inr (JStr a)"
    by auto
  from assms(1) show ?thesis
    unfolding generate_arm_template_wf [OF t a assms(2)]
    by (auto simp: Let_def split: if_splits)
qed

text \<open>A record that lacks a readable type, a string address or a dict \<open>after\<close> makes
  the function raise before the dispatch, and never a ValueError.\<close>

lemma generate_arm_template_early_error:
  assumes "\<not> (\<exists>t a after. subscript resource ''type'' = Inr t
              \<and> subscript resource ''address'' = Inr (JStr a)
              \<and> change_after resource = Inr (JObj after))"
  shows "\<exists>e. generate_arm_template resource = Inl e \<and> (\<forall>m. e \<noteq> ValueError m)"
proof (cases "subscript resource ''type''")
  case (Inl e)
  then show ?thesis
    by (auto simp: generate_arm_template_def dest: subscript_Inl_D)
next
  case t: (Inr t)
  show ?thesis
  proof (cases "subscript resource ''address''")
    case (Inl e)
    with t show ?thesis
      by (auto simp: generate_arm_template_def dest: subscript_Inl_D)
  next
    case v: (Inr v)
    show ?thesis
    proof (cases "\<exists>a. v = JStr a")
      case False
      then have "str_replace v CHR ''.'' ''-'' = Inl AttributeError"
        by (cases v) auto
      with t v show ?thesis
        by (simp add: generate_arm_template_def)
    next
      case True
      then obtain a where a: "v = JStr a" by blast
      show ?thesis
      proof (cases "change_after resource")
        case (Inl e)
        with t v a show ?thesis
          by (auto simp: generate_arm_template_def dest: change_after_Inl_D)
      next
        case af: (Inr af)
        with assms t v a have "\<forall>kvs. af \<noteq> JObj kvs" by auto
        then have "dict_get af ''location'' (JStr ''eastus'') = Inl AttributeError"
          by (cases af) auto
        with t v a af show ?thesis
          by (simp add: generate_arm_template_def)
      qed
    qed
  qed
qed

lemma generate_arm_template_ValueError_D:
  assumes "generate_arm_template resource = Inl (ValueError m)"
  shows "\<exists>t. subscript resource ''type'' = Inr t \<and> \<not> py_in t HIGH_RISK_RESOURCES
           \<and> m = ''Unknown resource type '' @ py_str t"
proof -
  from assms generate_arm_template_early_error [of resource]
  obtain t a after where t: "subscript resource ''type'' = Inr t"
    and a: "subscript resource ''address'' = Inr (JStr a)"
    and af: "change_after resource = Inr (JObj after)"
    by fastforce
  from assms show ?thesis
    unfolding generate_arm_template_wf [OF t a af]
    by (auto simp: Let_def t py_in_iff HIGH_RISK_RESOURCES_def split: if_splits)
qed

lemma run_arm_validate_Inl_D:
  assumes "run_arm_validate w n sub rg loc template = Inl e"
  shows "e \<in> {CredentialUnavailableError, RequestException, JSONDecodeError, AttributeError}"
  using assms
  by (auto simp: run_arm_validate_def Let_def bindE_Inl_iff
        split: http_outcome.splits option.splits if_splits dest: dict_get_Inl_D)

subsection \<open>One iteration of the loop\<close>

lemma in_scope_Inr_D:
  assumes "in_scope resource = Inr b"
  shows "\<exists>t change. subscript resource ''type'' = Inr t \<and> subscript resource ''change'' = Inr (JObj change)
           \<and> (b \<longrightarrow> py_in t HIGH_RISK_RESOURCES)"
  using assms
  by (auto simp: in_scope_def bindE_Inr_iff dict_get_Inr_iff)

lemma in_scope_Inl_D:
  assumes "in_scope resource = Inl e"
  shows "(\<exists>k. e = KeyError k) \<or> e = TypeError \<or> e = AttributeError"
  using assms
  by (auto simp: in_scope_def py_set_def bindE_Inl_iff split: if_splits
        dest: subscript_Inl_D dict_get_Inl_D elim: py_iter.elims)

lemma step_not_selected: "in_scope resource = Inr False \<Longrightarrow> step w sub resource st = Inr st"
  by (simp add: step_def)

lemma step_in_scope_error: "in_scope resource = Inl e \<Longrightarrow> step w sub resource st = Inl e"
  by (simp add: step_def)

lemma step_synthesis_error:
  "in_scope resource = Inr True \<Longrightarrow> generate_arm_template resource = Inl e
     \<Longrightarrow> step w sub resource st = Inl e"
  by (simp add: step_def)

lemma subscript_template_of [simp]:
  "subscript (template_of res) ''resources'' = Inr (JArr [JObj res])"
  by (simp add: template_of_def)

lemma context_sku_obj:
  "context_sku (JObj after) =
     Inr (py_or (get_or after ''sku_name'' JNull) (py_or (get_or after ''sku'' JNull) (JStr ''unknown'')))"
  by (simp add: context_sku_def py_or_def)

lemma step_selected:
  assumes sel: "in_scope resource = Inr True"
    and gen: "generate_arm_template resource = Inr template"
  shows "\<exists>a after.
      subscript resource ''address'' = Inr (JStr a)
    \<and> change_after resource = Inr (JObj after)
    \<and> step w sub resource st =
        bindE (run_arm_validate w (length (calls st)) sub ''preflight-rg''
                 (get_or after ''location'' (JStr ''eastus'')) template) (\<lambda>r.
        Inr (st\<lparr>calls := calls st @
                   [\<lparr>for_resource = resource, arg_subscription_id = sub,
                     arg_resource_group = ''preflight-rg'',
                     arg_location = get_or after ''location'' (JStr ''eastus''),
                     arg_template = template, returned = r\<rparr>],
                 errors := errors st @
                   (if fst r then []
                    else [failure_block (JStr a) (get_or after ''location'' (JStr ''eastus''))
                            (py_or (get_or after ''sku_name'' JNull)
                               (py_or (get_or after ''sku'' JNull) (JStr ''unknown'')))
                            (get_or after ''zones'' (JArr [])) (snd r)])\<rparr>))"
proof -
  from generate_arm_template_Inr_D [OF gen]
  obtain t a after where t: "subscript resource ''type'' = Inr t"
    and a: "subscript resource ''address'' = Inr (JStr a)"
    and af: "change_after resource = Inr (JObj after)"
    by auto
  from af obtain change where ch: "subscript resource ''change'' = Inr (JObj change)"
    and af': "map_of change ''after'' = Some (JObj after)"
    by (auto simp: change_after_def bindE_Inr_iff subscript_Inr_iff)
  from template_location [OF gen af] obtain res where res: "template = template_of res"
    and loc: "map_of res ''location'' = Some (get_or after ''location'' (JStr ''eastus''))"
    by auto
  have "step w sub resource st =
        bindE (run_arm_validate w (length (calls st)) sub ''preflight-rg''
                 (get_or after ''location'' (JStr ''eastus'')) template) (\<lambda>r.
        Inr (st\<lparr>calls := calls st @
                   [\<lparr>for_resource = resource, arg_subscription_id = sub,
                     arg_resource_group = ''preflight-rg'',
                     arg_location = get_or after ''location'' (JStr ''eastus''),
                     arg_template = template, returned = r\<rparr>],
                 errors := errors st @
                   (if fst r then []
                    else [failure_block (JStr a) (get_or after ''location'' (JStr ''eastus''))
                            (py_or (get_or after ''sku_name'' JNull)
                               (py_or (get_or after ''sku'' JNull) (JStr ''unknown'')))
                            (get_or after ''zones'' (JArr [])) (snd r)])\<rparr>))"
    using sel gen a ch af' loc
    apply (simp add: step_def res context_sku_obj get_or_def [of change] Let_def)
    apply (rule bindE_cong)
     apply simp_all
    done
  with a af show ?thesis by blast
qed

lemma step_selected_error:
  assumes "in_scope resource = Inr True"
    and "generate_arm_template resource = Inr template"
    and "step w sub resource st = Inl e"
  shows "\<exists>loc. run_arm_validate w (length (calls st)) sub ''preflight-rg'' loc template = Inl e"
  using step_selected [OF assms(1,2), of w sub st] assms(3)
  by (elim exE conjE) (auto simp: bindE_returning_Inl_iff)

lemma step_not_ValueError: "step w sub resource st \<noteq> Inl (ValueError m)"
proof
  assume st: "step w sub resource st = Inl (ValueError m)"
  show False
  proof (cases "in_scope resource")
    case (Inl e)
    with st in_scope_Inl_D [OF Inl] show False
      by (auto simp: step_in_scope_error)
  next
    case (Inr b)
    show False
    proof (cases b)
      case False
      with Inr st show False by (simp add: step_not_selected)
    next
      case True
      with Inr have sel: "in_scope resource = Inr True" by simp
      from in_scope_Inr_D [OF sel] obtain t where t: "subscript resource ''type'' = Inr t"
        and hr: "py_in t HIGH_RISK_RESOURCES" by auto
      show False
      proof (cases "generate_arm_template resource")
        case (Inl e)
        with st sel have "generate_arm_template resource = Inl (ValueError m)"
          by (simp add: step_synthesis_error)
        from generate_arm_template_ValueError_D [OF this] t hr show False by simp
      next
        case (Inr template)
        from step_selected_error [OF sel Inr st]
        obtain loc where "run_arm_validate w (length (calls st)) sub ''preflight-rg'' loc template
                          = Inl (ValueError m)"
          by blast
        from run_arm_validate_Inl_D [OF this] show False by simp
      qed
    qed
  qed
qed

text \<open>What a call that returns has been answered.\<close>

lemma run_arm_validate_Inr_D:
  assumes "run_arm_validate w n sub rg loc template = Inr r"
  shows "\<exists>status_code payload.
           answer w n (validate_url sub rg (''preflight-'' @ uuid4 w n)) (validate_body template)
             = Response status_code (Some payload)
         \<and> (status_code = 200 \<or> (\<exists>kvs. payload = JObj kvs))
         \<and> r = (if status_code = 200 then (True, ''Validation succeeded'')
                  else (False,
                        json_dumps_indent2
                          (case payload of JObj kvs \<Rightarrow> get_or kvs ''error'' payload
                           | _ \<Rightarrow> payload)))"
proof (cases "answer w n (validate_url sub rg (''preflight-'' @ uuid4 w n)) (validate_body template)")
  case No_token
  with assms show ?thesis by (simp add: run_arm_validate_def)
next
  case No_response
  with assms show ?thesis by (simp add: run_arm_validate_def)
next
  case (Response status_code content)
  with assms obtain payload where c: "content = Some payload"
    by (cases content) (simp_all add: run_arm_validate_def)
  show ?thesis
  proof (cases "status_code = 200")
    case True
    with assms Response c show ?thesis by (auto simp: run_arm_validate_def)
  next
    case False
    with assms Response c obtain kvs where "payload = JObj kvs"
      by (auto simp: run_arm_validate_def bindE_Inr_iff dict_get_Inr_iff)
    with assms Response c False show ?thesis by (auto simp: run_arm_validate_def)
  qed
qed

text \<open>The f-string of the loop, for a string address and the context the loop reads
  from a dict \<open>after\<close>, is the block spelled out.\<close>

lemma block_for_failure_block:
  assumes "subscript resource ''address'' = Inr (JStr a)"
    and "change_after resource = Inr (JObj after)"
  shows "block_for
           \<lparr>for_resource = resource, arg_subscription_id = sub,
             arg_resource_group = rg,
             arg_location = get_or after ''location'' (JStr ''eastus''),
             arg_template = template, returned = r\<rparr>
           (failure_block (JStr a) (get_or after ''location'' (JStr ''eastus''))
              (py_or (get_or after ''sku_name'' JNull)
                 (py_or (get_or after ''sku'' JNull) (JStr ''unknown'')))
              (get_or after ''zones'' (JArr [])) (snd r))"
  unfolding block_for_def
  using assms by (simp add: failure_block_def py_or_def)

text \<open>A call has one block only: the text is settled by the call.\<close>

lemma block_for_unique: "block_for c e \<Longrightarrow> block_for c e' \<Longrightarrow> e = e'"
  by (auto simp: block_for_def)

lemma step_accounting:
  assumes "step w sub resource st = Inr st'"
  shows "(in_scope resource = Inr False \<and> st' = st)
       \<or> (\<exists>c e. for_resource c = resource
              \<and> call_made w sub (length (calls st)) c
              \<and> block_for c e
              \<and> calls st' = calls st @ [c]
              \<and> errors st' = errors st @ (if failed c then [e] else []))"
proof (cases "in_scope resource")
  case (Inl e)
  with assms show ?thesis by (simp add: step_in_scope_error)
next
  case (Inr b)
  show ?thesis
  proof (cases b)
    case False
    with Inr assms show ?thesis by (simp add: step_not_selected)
  next
    case True
    with Inr have sel: "in_scope resource = Inr True" by simp
    show ?thesis
    proof (cases "generate_arm_template resource")
      case (Inl e)
      with assms sel show ?thesis by (simp add: step_synthesis_error)
    next
      case gen: (Inr template)
      from step_selected [OF sel gen, of w sub st]
      obtain a after where a: "subscript resource ''address'' = Inr (JStr a)"
        and af: "change_after resource = Inr (JObj after)"
        and eq: "step w sub resource st =
          bindE (run_arm_validate w (length (calls st)) sub ''preflight-rg''
                 (get_or after ''location'' (JStr ''eastus'')) template) (\<lambda>r.
          Inr (st\<lparr>calls := calls st @
                   [\<lparr>for_resource = resource, arg_subscription_id = sub,
                     arg_resource_group = ''preflight-rg'',
                     arg_location = get_or after ''location'' (JStr ''eastus''),
                     arg_template = template, returned = r\<rparr>],
                 errors := errors st @
                   (if fst r then []
                    else [failure_block (JStr a) (get_or after ''location'' (JStr ''eastus''))
                            (py_or (get_or after ''sku_name'' JNull)
                               (py_or (get_or after ''sku'' JNull) (JStr ''unknown'')))
                            (get_or after ''zones'' (JArr [])) (snd r)])\<rparr>))"
        by blast
      from assms eq obtain r where
        r: "run_arm_validate w (length (calls st)) sub ''preflight-rg''
                 (get_or after ''location'' (JStr ''eastus'')) template = Inr r"
        and st': "st' = st\<lparr>calls := calls st @
                   [\<lparr>for_resource = resource, arg_subscription_id = sub,
                     arg_resource_group = ''preflight-rg'',
                     arg_location = get_or after ''location'' (JStr ''eastus''),
                     arg_template = template, returned = r\<rparr>],
                 errors := errors st @
                   (if fst r then []
                    else [failure_block (JStr a) (get_or after ''location'' (JStr ''eastus''))
                            (py_or (get_or after ''sku_name'' JNull)
                               (py_or (get_or after ''sku'' JNull) (JStr ''unknown'')))
                            (get_or after ''zones'' (JArr [])) (snd r)])\<rparr>"
        by (auto simp: bindE_Inr_iff)
      define c where "c = \<lparr>for_resource = resource, arg_subscription_id = sub,
                     arg_resource_group = ''preflight-rg'',
                     arg_location = get_or after ''location'' (JStr ''eastus''),
                     arg_template = template, returned = r\<rparr>"
      define e where "e = failure_block (JStr a) (get_or after ''location'' (JStr ''eastus''))
                            (py_or (get_or after ''sku_name'' JNull)
                               (py_or (get_or after ''sku'' JNull) (JStr ''unknown'')))
                            (get_or after ''zones'' (JArr [])) (snd r)"
      have 1: "for_resource c = resource" by (simp add: c_def)
      from template_location [OF gen af] obtain res where
        "subscript template ''resources'' = Inr (JArr [JObj res])"
        and "map_of res ''location'' = Some (get_or after ''location'' (JStr ''eastus''))"
        by auto
      with sel gen r run_arm_validate_Inr_D [OF r]
      have 2: "call_made w sub (length (calls st)) c"
        unfolding call_made_def by (simp add: c_def)
      have 3: "block_for c e"
        unfolding c_def e_def by (rule block_for_failure_block [OF a af])
      have 4: "calls st' = calls st @ [c]" by (simp add: st' c_def)
      have 5: "errors st' = errors st @ (if failed c then [e] else [])"
        by (simp add: st' c_def e_def failed_def)
      from 1 2 3 4 5 show ?thesis by blast
    qed
  qed
qed

lemma step_returns:
  assumes "in_scope r = Inr b"
    and "b \<longrightarrow> (\<exists>a after. subscript r ''address'' = Inr (JStr a) \<and> change_after r = Inr (JObj after))"
    and "\<forall>n url body. \<exists>status_code kvs. answer w n url body = Response status_code (Some (JObj kvs))"
  shows "\<exists>st'. step w sub r st = Inr st'"
proof (cases b)
  case False
  with assms(1) show ?thesis by (simp add: step_not_selected)
next
  case True
  with assms(1) have sel: "in_scope r = Inr True" by simp
  from True assms(2) obtain a after where a: "subscript r ''address'' = Inr (JStr a)"
    and af: "change_after r = Inr (JObj after)" by blast
  from in_scope_Inr_D [OF sel] obtain t where t: "subscript r ''type'' = Inr t"
    and hr: "py_in t HIGH_RISK_RESOURCES" by auto
  from hr have "t \<in> {JStr ''azurerm_firewall'', JStr ''azurerm_application_gateway'',
                  JStr ''azurerm_lb'', JStr ''azurerm_bastion_host''}"
    by (auto simp: py_in_iff HIGH_RISK_RESOURCES_def)
  then obtain template where gen: "generate_arm_template r = Inr template"
    unfolding generate_arm_template_wf [OF t a af] by (auto simp: Let_def)
  have "\<exists>res. run_arm_validate w n sub rg loc template = Inr res" for n rg loc
  proof -
    from assms(3) obtain status_code kvs where
      "answer w n (validate_url sub rg (''preflight-'' @ uuid4 w n)) (validate_body template)
         = Response status_code (Some (JObj kvs))"
      by blast
    then show ?thesis by (auto simp: run_arm_validate_def)
  qed
  with step_selected [OF sel gen, of w sub st] show ?thesis
    by (elim exE conjE) (auto simp: bindE_Inr_iff)
qed

subsection \<open>The loop and the run\<close>

lemma validate_loop_none_selected:
  "\<forall>r\<in>set rs. in_scope r = Inr False \<Longrightarrow> validate_loop w sub rs st = Inr st"
  by (induction rs) (simp_all add: step_not_selected)

lemma validate_loop_append:
  "validate_loop w sub (xs @ ys) st =
     (case validate_loop w sub xs st of Inl e \<Rightarrow> Inl e | Inr st' \<Rightarrow> validate_loop w sub ys st')"
  by (induction xs arbitrary: st) (auto split: sum.splits)

lemma validate_loop_not_ValueError: "validate_loop w sub rs st \<noteq> Inl (ValueError m)"
  by (induction rs arbitrary: st) (auto simp: step_not_ValueError split: sum.splits)

lemma preflight_not_ValueError: "preflight w sub plan \<noteq> Inl (ValueError m)"
  by (auto simp: preflight_def bindE_Inl_iff validate_loop_not_ValueError
        dest: dict_get_Inl_D py_iter_Inl_D)

text \<open>The accounting of the loop: the calls it adds are those of the selected records,
  in the order of the plan, and the blocks it adds are those of the failed calls.\<close>

lemma validate_loop_accounting:
  assumes "validate_loop w sub rs st = Inr st'"
  shows "\<exists>cs es. calls st' = calls st @ cs
           \<and> errors st' = errors st @ es
           \<and> map for_resource cs = filter (\<lambda>r. in_scope r = Inr True) rs
           \<and> list_all2 block_for (filter failed cs) es
           \<and> (\<forall>i<length cs. call_made w sub (length (calls st) + i) (cs ! i))"
  using assms
proof (induction rs arbitrary: st)
  case Nil
  then show ?case by simp
next
  case (Cons r rs)
  from Cons.prems obtain st1 where s1: "step w sub r st = Inr st1"
    and l1: "validate_loop w sub rs st1 = Inr st'"
    by (auto split: sum.splits)
  from Cons.IH [OF l1] obtain cs es where
    cs: "calls st' = calls st1 @ cs" and es: "errors st' = errors st1 @ es"
    and m: "map for_resource cs = filter (\<lambda>r. in_scope r = Inr True) rs"
    and b: "list_all2 block_for (filter failed cs) es"
    and cm: "\<forall>i<length cs. call_made w sub (length (calls st1) + i) (cs ! i)"
    by blast
  from step_accounting [OF s1] show ?case
  proof (elim disjE exE conjE)
    assume "in_scope r = Inr False" "st1 = st"
    with cs es m b cm show ?thesis by auto
  next
    fix c e
    assume c: "for_resource c = r" and made: "call_made w sub (length (calls st)) c"
      and blk: "block_for c e" and c1: "calls st1 = calls st @ [c]"
      and e1: "errors st1 = errors st @ (if failed c then [e] else [])"
    from made c have sel: "in_scope r = Inr True" by (simp add: call_made_def)
    have "calls st' = calls st @ (c # cs)" using cs c1 by simp
    moreover have "errors st' = errors st @ ((if failed c then [e] else []) @ es)"
      using es e1 by simp
    moreover have "map for_resource (c # cs) = filter (\<lambda>r. in_scope r = Inr True) (r # rs)"
      using m c sel by simp
    moreover have "list_all2 block_for (filter failed (c # cs)) ((if failed c then [e] else []) @ es)"
      using b blk by simp
    moreover have "\<forall>i<length (c # cs). call_made w sub (length (calls st) + i) ((c # cs) ! i)"
    proof (intro allI impI)
      fix i assume "i < length (c # cs)"
      then show "call_made w sub (length (calls st) + i) ((c # cs) ! i)"
        using made cm c1 by (cases i) auto
    qed
    ultimately show ?thesis by blast
  qed
qed

text \<open>The run returns, with a verdict, when every record can be classified, every
  selected record has a string address and a dict \<open>after\<close>, and every request is
  answered by a JSON object.\<close>

lemma validate_loop_returns:
  assumes "\<forall>r\<in>set rs. \<exists>b. in_scope r = Inr b
              \<and> (b \<longrightarrow> (\<exists>a after. subscript r ''address'' = Inr (JStr a)
                                \<and> change_after r = Inr (JObj after)))"
    and "\<forall>n url body. \<exists>status_code kvs. answer w n url body = Response status_code (Some (JObj kvs))"
  shows "\<exists>st'. validate_loop w sub rs st = Inr st'"
  using assms(1)
proof (induction rs arbitrary: st)
  case Nil
  then show ?case by simp
next
  case (Cons r rs)
  then obtain b where "in_scope r = Inr b"
    and "b \<longrightarrow> (\<exists>a after. subscript r ''address'' = Inr (JStr a) \<and> change_after r = Inr (JObj after))"
    by auto
  from step_returns [OF this assms(2), of sub st] obtain st1 where "step w sub r st = Inr st1"
    by blast
  moreover from Cons have "\<exists>st'. validate_loop w sub rs st1 = Inr st'" by simp
  ultimately show ?case by simp
qed

lemma preflight_returns:
  assumes "bindE (dict_get plan ''resource_changes'' (JArr [])) py_iter = Inr resources"
    and "\<forall>r\<in>set resources. \<exists>b. in_scope r = Inr b
              \<and> (b \<longrightarrow> (\<exists>a after. subscript r ''address'' = Inr (JStr a)
                                \<and> change_after r = Inr (JObj after)))"
    and "\<forall>n url body. \<exists>status_code kvs. answer w n url body = Response status_code (Some (JObj kvs))"
  shows "\<exists>st out code. preflight w sub plan = Inr (st, out, code)"
proof -
  from validate_loop_returns [OF assms(2,3), of sub "\<lparr>errors = [], calls = []\<rparr>"]
  obtain st where "validate_loop w sub resources \<lparr>errors = [], calls = []\<rparr> = Inr st" by blast
  with assms(1) show ?thesis
    by (cases "verdict (errors st)") (auto simp: preflight_def bindE_Inr_iff)
qed

subsection \<open>Evaluation of the concrete inputs\<close>

lemmas eval_defs =
  preflight_def step_def in_scope_def py_set_def intersection_def HIGH_RISK_RESOURCES_def
  VALID_ACTIONS_def generate_arm_template_def change_after_def template_of_def replace_char_def
  run_arm_validate_def validate_url_def validate_body_def json_dumps_indent2_def context_sku_def
  failure_block_def verdict_def dumps_str_def dumps_char_def newline_indent_def get_or_def py_or_def
  example_firewall_def example_vnet_def example_lb_delete_def example_plan_def
  example_firewall_template_def

lemma example_firewall_in_scope: "in_scope example_firewall = Inr True"
  by (simp add: eval_defs)

lemma example_firewall_synthesis:
  "generate_arm_template example_firewall = Inr example_firewall_template"
  by (simp add: eval_defs)

lemma rejected_run:
  "preflight rejecting_world ''sub'' example_plan =
     Inr (\<lparr>errors = [sku_block],
           calls = [\<lparr>for_resource = example_firewall,
                     arg_subscription_id = ''sub'',
                     arg_resource_group = ''preflight-rg'',
                     arg_location = JStr ''westus'',
                     arg_template = example_firewall_template,
                     returned = (False,
                       ''{'' @ [CHR 0x0A] @ ''  '' @ [CHR 0x22] @ ''code'' @ [CHR 0x22] @ '': ''
                       @ [CHR 0x22] @ ''SkuNotAvailable'' @ [CHR 0x22] @ [CHR 0x0A] @ ''}'')\<rparr>]\<rparr>,
          [''Pre-flight validation failed for the following resources:'', sku_block], 1)"
  by (simp add: eval_defs rejecting_world_def sku_block_def)

section \<open>The properties of the specification\<close>

text \<open>
  C1, as the specification states it: a failure of the transport or of the authorization
  is never recorded in the failure sequence as a validation problem. The code does
  record it: for the firewall of the scenario and a provider that answers with status
  401, the run ends with one block in the list of errors, in the format of a rejected
  template, and the verdict of a failed validation.
\<close>

theorem transport_failure_recorded_counterexample:
  "transport_or_authorization_failure
     (answer denied_world 0
        (validate_url ''sub'' ''preflight-rg'' (''preflight-'' @ uuid4 denied_world 0))
        (validate_body example_firewall_template))
   \<and> generate_arm_template example_firewall = Inr example_firewall_template
   \<and> preflight denied_world ''sub'' example_plan =
       Inr (\<lparr>errors = [denied_block],
             calls = [\<lparr>for_resource = example_firewall,
                       arg_subscription_id = ''sub'',
                       arg_resource_group = ''preflight-rg'',
                       arg_location = JStr ''westus'',
                       arg_template = example_firewall_template,
                       returned = (False,
                         ''{'' @ [CHR 0x0A] @ ''  '' @ [CHR 0x22] @ ''code'' @ [CHR 0x22] @ '': ''
                         @ [CHR 0x22] @ ''AuthenticationFailed'' @ [CHR 0x22] @ [CHR 0x0A] @ ''}'')\<rparr>]\<rparr>,
            [''Pre-flight validation failed for the following resources:'', denied_block], 1)"
  by (simp add: eval_defs denied_world_def denied_block_def transport_or_authorization_failure_def)

text \<open>
  C1, amended. The validation call decides by the status code alone. A response with
  status 200 and a content that parses is a success. Any other status whose content is
  a JSON object (a 401 or a 403 as much as a rejection of the template) returns the flag
  \<open>False\<close> with the dump of the member \<open>error\<close> of the object, or of the object when it
  has none, and the loop records it as one block of the failure sequence. Only an
  attempt that obtains no parsed object (no token, no response, a content that is no
  JSON or, with a status other than 200, no object) raises an exception; nothing is
  recorded for it, and the exception leaves the iteration of the loop uncaught.
\<close>

theorem outcome_decided_by_status_alone:
  assumes sel: "in_scope resource = Inr True"
    and gen: "generate_arm_template resource = Inr template"
    and out: "answer w (length (calls st))
                (validate_url sub ''preflight-rg'' (''preflight-'' @ uuid4 w (length (calls st))))
                (validate_body template) = outcome"
  shows "case outcome of
           No_token \<Rightarrow> step w sub resource st = Inl CredentialUnavailableError
         | No_response \<Rightarrow> step w sub resource st = Inl RequestException
         | Response status_code None \<Rightarrow> step w sub resource st = Inl JSONDecodeError
         | Response status_code (Some payload) \<Rightarrow>
             if status_code = 200 then
               \<exists>c. step w sub resource st = Inr (st\<lparr>calls := calls st @ [c]\<rparr>)
                  \<and> for_resource c = resource
                  \<and> returned c = (True, ''Validation succeeded'')
             else
               (case payload of
                  JObj kvs \<Rightarrow>
                    \<exists>c e. step w sub resource st =
                             Inr (st\<lparr>calls := calls st @ [c], errors := errors st @ [e]\<rparr>)
                         \<and> for_resource c = resource
                         \<and> returned c = (False, json_dumps_indent2 (get_or kvs ''error'' payload))
                         \<and> block_for c e
                | _ \<Rightarrow> step w sub resource st = Inl AttributeError)"
proof -
  from step_selected [OF sel gen, of w sub st]
  obtain a after where a: "subscript resource ''address'' = Inr (JStr a)"
    and af: "change_after resource = Inr (JObj after)"
    and eq: "step w sub resource st =
          bindE (run_arm_validate w (length (calls st)) sub ''preflight-rg''
                 (get_or after ''location'' (JStr ''eastus'')) template) (\<lambda>r.
          Inr (st\<lparr>calls := calls st @
                   [\<lparr>for_resource = resource, arg_subscription_id = sub,
                     arg_resource_group = ''preflight-rg'',
                     arg_location = get_or after ''location'' (JStr ''eastus''),
                     arg_template = template, returned = r\<rparr>],
                 errors := errors st @
                   (if fst r then []
                    else [failure_block (JStr a) (get_or after ''location'' (JStr ''eastus''))
                            (py_or (get_or after ''sku_name'' JNull)
                               (py_or (get_or after ''sku'' JNull) (JStr ''unknown'')))
                            (get_or after ''zones'' (JArr [])) (snd r)])\<rparr>))"
    by blast
  show ?thesis
  proof (cases outcome)
    case No_token
    with out show ?thesis by (simp add: eq run_arm_validate_def)
  next
    case No_response
    with out show ?thesis by (simp add: eq run_arm_validate_def)
  next
    case (Response status_code content)
    show ?thesis
    proof (cases content)
      case None
      with Response out show ?thesis by (simp add: eq run_arm_validate_def)
    next
      case (Some payload)
      show ?thesis
      proof (cases "status_code = 200")
        case True
        have "step w sub resource st =
             Inr (st\<lparr>calls := calls st @
                   [\<lparr>for_resource = resource, arg_subscription_id = sub,
                     arg_resource_group = ''preflight-rg'',
                     arg_location = get_or after ''location'' (JStr ''eastus''),
                     arg_template = template,
                     returned = (True, ''Validation succeeded'')\<rparr>]\<rparr>)"
          using Response Some True out by (simp add: eq run_arm_validate_def)
        then have "\<exists>c. step w sub resource st = Inr (st\<lparr>calls := calls st @ [c]\<rparr>)
                  \<and> for_resource c = resource
                  \<and> returned c = (True, ''Validation succeeded'')"
          by (intro exI conjI) (assumption, simp, simp)
        with Response Some True show ?thesis by simp
      next
        case False
        show ?thesis
        proof (cases "\<exists>kvs. payload = JObj kvs")
          case True
          then obtain kvs where kvs: "payload = JObj kvs" by blast
          have blk: "block_for
              \<lparr>for_resource = resource, arg_subscription_id = sub,
                arg_resource_group = ''preflight-rg'',
                arg_location = get_or after ''location'' (JStr ''eastus''),
                arg_template = template,
                returned = (False, json_dumps_indent2 (get_or kvs ''error'' (JObj kvs)))\<rparr>
              (failure_block (JStr a) (get_or after ''location'' (JStr ''eastus''))
                            (py_or (get_or after ''sku_name'' JNull)
                               (py_or (get_or after ''sku'' JNull) (JStr ''unknown'')))
                            (get_or after ''zones'' (JArr []))
                            (json_dumps_indent2 (get_or kvs ''error'' (JObj kvs))))"
            using block_for_failure_block [OF a af, of sub "''preflight-rg''" template
                "(False, json_dumps_indent2 (get_or kvs ''error'' (JObj kvs)))"]
            by simp
          have "step w sub resource st =
             Inr (st\<lparr>calls := calls st @
                   [\<lparr>for_resource = resource, arg_subscription_id = sub,
                     arg_resource_group = ''preflight-rg'',
                     arg_location = get_or after ''location'' (JStr ''eastus''),
                     arg_template = template,
                     returned = (False, json_dumps_indent2 (get_or kvs ''error'' (JObj kvs)))\<rparr>],
                 errors := errors st @
                   [failure_block (JStr a) (get_or after ''location'' (JStr ''eastus''))
                            (py_or (get_or after ''sku_name'' JNull)
                               (py_or (get_or after ''sku'' JNull) (JStr ''unknown'')))
                            (get_or after ''zones'' (JArr []))
                            (json_dumps_indent2 (get_or kvs ''error'' (JObj kvs)))]\<rparr>)"
            using Response Some False kvs out by (simp add: eq run_arm_validate_def)
          with blk have "\<exists>c e. step w sub resource st =
                             Inr (st\<lparr>calls := calls st @ [c], errors := errors st @ [e]\<rparr>)
                         \<and> for_resource c = resource
                         \<and> returned c = (False, json_dumps_indent2 (get_or kvs ''error'' payload))
                         \<and> block_for c e"
            unfolding kvs
            by (intro exI conjI) (assumption, simp, simp, assumption)
          with Response Some False kvs show ?thesis by simp
        next
          case no: False
          then have "dict_get payload ''error'' payload = Inl AttributeError"
            by (cases payload) auto
          with Response Some False out have "step w sub resource st = Inl AttributeError"
            by (simp add: eq run_arm_validate_def)
          with Response Some False no show ?thesis
            by (cases payload) auto
        qed
      qed
    qed
  qed
qed

theorem outcome_decided_by_status_alone_witness:
  "\<exists>c e. step denied_world ''sub'' example_firewall \<lparr>errors = [], calls = []\<rparr> =
            Inr \<lparr>errors = [e], calls = [c]\<rparr>
        \<and> for_resource c = example_firewall
        \<and> returned c =
            (False, json_dumps_indent2 (JObj [(''code'', JStr ''AuthenticationFailed'')]))
        \<and> block_for c e"
proof -
  have "answer denied_world (length (calls \<lparr>errors = [], calls = []\<rparr>))
          (validate_url ''sub'' ''preflight-rg''
             (''preflight-'' @ uuid4 denied_world (length (calls \<lparr>errors = [], calls = []\<rparr>))))
          (validate_body example_firewall_template)
        = Response 401 (Some (JObj [(''error'', JObj [(''code'', JStr ''AuthenticationFailed'')])]))"
    by (simp add: denied_world_def)
  from outcome_decided_by_status_alone
         [OF example_firewall_in_scope example_firewall_synthesis this]
  show ?thesis by (simp add: get_or_def)
qed

text \<open>
  C2. For a resource-change record of type \<open>azurerm_firewall\<close> (created, in the
  scenario) whose \<open>after\<close> has location \<open>westus\<close> and sku\_name \<open>AZFW_Hub\<close>,
  \<open>generate_arm_template\<close> returns the descriptor whose one resource has type
  \<open>Microsoft.Network/azureFirewalls\<close>, location \<open>westus\<close>, sku name \<open>AZFW_Hub\<close> and
  sku tier \<open>Standard\<close>. The descriptor is given in full.
\<close>

theorem firewall_scenario_descriptor:
  assumes "subscript resource ''type'' = Inr (JStr ''azurerm_firewall'')"
    and "subscript resource ''address'' = Inr (JStr a)"
    and "subscript resource ''change'' = Inr (JObj change)"
    and "map_of change ''after'' = Some (JObj after)"
    and "map_of after ''location'' = Some (JStr ''westus'')"
    and "map_of after ''sku_name'' = Some (JStr ''AZFW_Hub'')"
  shows "generate_arm_template resource =
     Inr (JObj [(''$schema'',
                 JStr ''https://schema.management.azure.com/schemas/2019-04-01/deploymentTemplate.json#''),
                (''contentVersion'', JStr ''1.0.0.0''),
                (''resources'',
                 JArr [JObj [(''type'', JStr ''Microsoft.Network/azureFirewalls''),
                             (''apiVersion'', JStr ''2022-08-01''),
                             (''name'', JStr (res_name a)),
                             (''location'', JStr ''westus''),
                             (''sku'', JObj [(''name'', JStr ''AZFW_Hub''),
                                             (''tier'', JStr ''Standard'')])]])])"
proof -
  have "change_after resource = Inr (JObj after)"
    using assms(3,4) by (simp add: change_after_def)
  from generate_arm_template_wf [OF assms(1,2) this] assms(5,6)
  show ?thesis by (simp add: get_or_def template_of_def)
qed

theorem firewall_scenario_descriptor_witness:
  "generate_arm_template example_firewall =
     Inr (JObj [(''$schema'',
                 JStr ''https://schema.management.azure.com/schemas/2019-04-01/deploymentTemplate.json#''),
                (''contentVersion'', JStr ''1.0.0.0''),
                (''resources'',
                 JArr [JObj [(''type'', JStr ''Microsoft.Network/azureFirewalls''),
                             (''apiVersion'', JStr ''2022-08-01''),
                             (''name'', JStr ''azurerm_firewall-hub-0''),
                             (''location'', JStr ''westus''),
                             (''sku'', JObj [(''name'', JStr ''AZFW_Hub''),
                                             (''tier'', JStr ''Standard'')])]])])"
proof -
  have "generate_arm_template example_firewall =
     Inr (JObj [(''$schema'',
                 JStr ''https://schema.management.azure.com/schemas/2019-04-01/deploymentTemplate.json#''),
                (''contentVersion'', JStr ''1.0.0.0''),
                (''resources'',
                 JArr [JObj [(''type'', JStr ''Microsoft.Network/azureFirewalls''),
                             (''apiVersion'', JStr ''2022-08-01''),
                             (''name'', JStr (res_name ''azurerm_firewall.hub[0]'')),
                             (''location'', JStr ''westus''),
                             (''sku'', JObj [(''name'', JStr ''AZFW_Hub''),
                                             (''tier'', JStr ''Standard'')])]])])"
    by (rule firewall_scenario_descriptor
          [where change = "[(''actions'', JArr [JStr ''create'']),
                            (''after'', JObj [(''location'', JStr ''westus''),
                                              (''sku_name'', JStr ''AZFW_Hub'')])]"
             and after = "[(''location'', JStr ''westus''), (''sku_name'', JStr ''AZFW_Hub'')]"])
       (simp_all add: example_firewall_def)
  then show ?thesis by (simp add: res_name_def replace_char_def)
qed

text \<open>
  C3. A record is selected by the loop if and only if its type is one of the four
  high-risk kinds and its actions contain create or update; a record that is not
  selected leaves the state of the loop as it was, so no validation call is made for it.
  The record is one whose \<open>change\<close> is a dict and whose actions (none, when the key is
  missing) are a list of hashable values, as the actions of a plan are.
\<close>

theorem in_scope_iff:
  assumes "subscript resource ''type'' = Inr t"
    and "subscript resource ''change'' = Inr (JObj change)"
    and "get_or change ''actions'' (JArr []) = JArr acts"
    and "list_all hashable acts"
  shows "in_scope resource =
           Inr (t \<in> {JStr ''azurerm_firewall'', JStr ''azurerm_application_gateway'',
                      JStr ''azurerm_lb'', JStr ''azurerm_bastion_host''}
                \<and> (JStr ''create'' \<in> set acts \<or> JStr ''update'' \<in> set acts))
       \<and> (\<not> (t \<in> {JStr ''azurerm_firewall'', JStr ''azurerm_application_gateway'',
                      JStr ''azurerm_lb'', JStr ''azurerm_bastion_host''}
                \<and> (JStr ''create'' \<in> set acts \<or> JStr ''update'' \<in> set acts))
            \<longrightarrow> step w sub resource st = Inr st)"
proof -
  have 1: "py_in t HIGH_RISK_RESOURCES \<longleftrightarrow>
        t \<in> {JStr ''azurerm_firewall'', JStr ''azurerm_application_gateway'',
              JStr ''azurerm_lb'', JStr ''azurerm_bastion_host''}"
    by (auto simp: py_in_iff HIGH_RISK_RESOURCES_def)
  have 2: "intersection acts VALID_ACTIONS \<noteq> [] \<longleftrightarrow>
        JStr ''create'' \<in> set acts \<or> JStr ''update'' \<in> set acts"
    by (auto simp: intersection_def filter_empty_conv py_in_iff VALID_ACTIONS_def)
  have 3: "in_scope resource =
           Inr (t \<in> {JStr ''azurerm_firewall'', JStr ''azurerm_application_gateway'',
                      JStr ''azurerm_lb'', JStr ''azurerm_bastion_host''}
                \<and> (JStr ''create'' \<in> set acts \<or> JStr ''update'' \<in> set acts))"
    using assms by (simp add: in_scope_def py_set_def 1 2)
  show ?thesis
    unfolding 3 by (auto simp: step_def 3)
qed

theorem in_scope_iff_witness:
  "in_scope example_firewall = Inr True \<and> in_scope example_lb_delete = Inr False
   \<and> step \<lparr>uuid4 = (\<lambda>n. []), answer = (\<lambda>n url body. No_response)\<rparr> ''sub'' example_lb_delete
        \<lparr>errors = [], calls = []\<rparr> = Inr \<lparr>errors = [], calls = []\<rparr>"
proof -
  have a: "in_scope example_firewall = Inr True"
    using in_scope_iff [of example_firewall "JStr ''azurerm_firewall''"
        "[(''actions'', JArr [JStr ''create'']),
          (''after'', JObj [(''location'', JStr ''westus''), (''sku_name'', JStr ''AZFW_Hub'')])]"
        "[JStr ''create'']"]
    by (simp add: example_firewall_def get_or_def)
  have b: "in_scope example_lb_delete = Inr False
     \<and> step \<lparr>uuid4 = (\<lambda>n. []), answer = (\<lambda>n url body. No_response)\<rparr> ''sub'' example_lb_delete
        \<lparr>errors = [], calls = []\<rparr> = Inr \<lparr>errors = [], calls = []\<rparr>"
    using in_scope_iff [of example_lb_delete "JStr ''azurerm_lb''"
        "[(''actions'', JArr [JStr ''delete'']), (''after'', JNull)]"
        "[JStr ''delete'']" "\<lparr>uuid4 = (\<lambda>n. []), answer = (\<lambda>n url body. No_response)\<rparr>"
        "''sub''" "\<lparr>errors = [], calls = []\<rparr>"]
    by (simp add: example_lb_delete_def get_or_def)
  from a b show ?thesis by simp
qed

text \<open>
  C4. A run that reaches its verdict exits with status 0 if and only if the list of
  errors is empty. A passing run prints the one line of a passed validation; a failing
  run prints the heading and then the list of errors and exits with status 1. The list
  of errors holds, in the order of the calls, one block for each call that failed and
  none for any other. The block of a call is five lines of text: the address of the
  call's record, the location passed to the call (that of the synthesized template),
  the SKU and the zones of the record's \<open>after\<close>, and the message the call returned, which
  is the dump of the error the provider answered. And the calls are those of the
  selected records of the plan, one for each, in the order of the plan.
\<close>

theorem verdict_pass_iff_no_failures:
  assumes "preflight w sub plan = Inr (st, out, code)"
  shows "(code = 0 \<longleftrightarrow> errors st = [])
       \<and> (out, code) =
           (if errors st = []
            then ([''Pre-flight validation passed for all high-risk resources!''], 0)
            else (''Pre-flight validation failed for the following resources:'' # errors st, 1))
       \<and> list_all2 block_for (filter failed (calls st)) (errors st)
       \<and> (\<forall>n<length (calls st). call_made w sub n (calls st ! n))
       \<and> (\<exists>resources.
             bindE (dict_get plan ''resource_changes'' (JArr [])) py_iter = Inr resources
           \<and> map for_resource (calls st) = filter (\<lambda>r. in_scope r = Inr True) resources)"
proof -
  from assms obtain resources where
    rs: "bindE (dict_get plan ''resource_changes'' (JArr [])) py_iter = Inr resources"
    and loop: "validate_loop w sub resources \<lparr>errors = [], calls = []\<rparr> = Inr st"
    and v: "verdict (errors st) = (out, code)"
    by (auto simp: preflight_def bindE_Inr_iff)
  from validate_loop_accounting [OF loop]
  have acc: "map for_resource (calls st) = filter (\<lambda>r. in_scope r = Inr True) resources"
    "list_all2 block_for (filter failed (calls st)) (errors st)"
    "\<forall>n<length (calls st). call_made w sub n (calls st ! n)"
    by auto
  from v have "(code = 0 \<longleftrightarrow> errors st = [])"
    and "(out, code) =
           (if errors st = []
            then ([''Pre-flight validation passed for all high-risk resources!''], 0)
            else (''Pre-flight validation failed for the following resources:'' # errors st, 1))"
    by (auto simp: verdict_def split: if_splits)
  with acc rs show ?thesis by blast
qed

theorem verdict_pass_iff_no_failures_witness:
  "list_all2 block_for
     (filter failed
        [\<lparr>for_resource = example_firewall,
          arg_subscription_id = ''sub'',
          arg_resource_group = ''preflight-rg'',
          arg_location = JStr ''westus'',
          arg_template = example_firewall_template,
          returned = (False,
            ''{'' @ [CHR 0x0A] @ ''  '' @ [CHR 0x22] @ ''code'' @ [CHR 0x22] @ '': ''
            @ [CHR 0x22] @ ''SkuNotAvailable'' @ [CHR 0x22] @ [CHR 0x0A] @ ''}'')\<rparr>])
     [sku_block]
   \<and> call_made rejecting_world ''sub'' 0
        \<lparr>for_resource = example_firewall,
          arg_subscription_id = ''sub'',
          arg_resource_group = ''preflight-rg'',
          arg_location = JStr ''westus'',
          arg_template = example_firewall_template,
          returned = (False,
            ''{'' @ [CHR 0x0A] @ ''  '' @ [CHR 0x22] @ ''code'' @ [CHR 0x22] @ '': ''
            @ [CHR 0x22] @ ''SkuNotAvailable'' @ [CHR 0x22] @ [CHR 0x0A] @ ''}'')\<rparr>"
  using verdict_pass_iff_no_failures [OF rejected_run]
  by simp




text \<open>
  C6. A descriptor that \<open>generate_arm_template\<close> returns has the three members
  \<open>$schema\<close>, \<open>contentVersion\<close> and \<open>resources\<close>, the last a list of one resource. The
  resource has the members type, apiVersion, name and location, and for a firewall, an
  application gateway and a load balancer the member sku (name and tier, for a load
  balancer the name only); it has no other member.
\<close>

theorem descriptor_is_minimal:
  assumes "generate_arm_template resource = Inr template"
  shows "\<exists>res t a after.
      template = JObj [(''$schema'',
                        JStr ''https://schema.management.azure.com/schemas/2019-04-01/deploymentTemplate.json#''),
                       (''contentVersion'', JStr ''1.0.0.0''),
                       (''resources'', JArr [JObj res])]
    \<and> subscript resource ''type'' = Inr (JStr t)
    \<and> subscript resource ''address'' = Inr (JStr a)
    \<and> change_after resource = Inr (JObj after)
    \<and> res = [(''type'', JStr (if t = ''azurerm_firewall'' then ''Microsoft.Network/azureFirewalls''
                               else if t = ''azurerm_application_gateway''
                                 then ''Microsoft.Network/applicationGateways''
                               else if t = ''azurerm_lb'' then ''Microsoft.Network/loadBalancers''
                               else ''Microsoft.Network/bastionHosts'')),
              (''apiVersion'', JStr ''2022-08-01''),
              (''name'', JStr (res_name a)),
              (''location'', get_or after ''location'' (JStr ''eastus''))]
            @ (if t = ''azurerm_firewall''
                 then [(''sku'', JObj [(''name'', get_or after ''sku_name'' (JStr ''AZFW_VNet'')),
                                       (''tier'', JStr ''Standard'')])]
               else if t = ''azurerm_application_gateway''
                 then [(''sku'', JObj [(''name'', get_or after ''sku_name'' (JStr ''WAF_v2'')),
                                       (''tier'', JStr ''WAF'')])]
               else if t = ''azurerm_lb''
                 then [(''sku'', JObj [(''name'', get_or after ''sku'' (JStr ''Standard''))])]
               else [])
    \<and> set (map fst res) \<subseteq> {''type'', ''apiVersion'', ''name'', ''location'', ''sku''}"
proof -
  from generate_arm_template_Inr_D [OF assms]
  obtain tv a after where t: "subscript resource ''type'' = Inr tv"
    and a: "subscript resource ''address'' = Inr (JStr a)"
    and af: "change_after resource = Inr (JObj after)"
    by auto
  note gen = generate_arm_template_wf [OF t a af]
  consider (fw) "tv = JStr ''azurerm_firewall''"
    | (agw) "tv = JStr ''azurerm_application_gateway''"
    | (lb) "tv = JStr ''azurerm_lb''"
    | (bastion) "tv = JStr ''azurerm_bastion_host''"
    | (other) "tv \<noteq> JStr ''azurerm_firewall''" "tv \<noteq> JStr ''azurerm_application_gateway''"
        "tv \<noteq> JStr ''azurerm_lb''" "tv \<noteq> JStr ''azurerm_bastion_host''"
    by blast
  then show ?thesis
  proof cases
    case fw
    with assms gen have "template = template_of
          [(''type'', JStr ''Microsoft.Network/azureFirewalls''), (''apiVersion'', JStr ''2022-08-01''),
           (''name'', JStr (res_name a)), (''location'', get_or after ''location'' (JStr ''eastus'')),
           (''sku'', JObj [(''name'', get_or after ''sku_name'' (JStr ''AZFW_VNet'')), (''tier'', JStr ''Standard'')])]"
      by (simp add: Let_def)
    with fw t a af show ?thesis by (simp add: template_of_def)
  next
    case agw
    with assms gen have "template = template_of
          [(''type'', JStr ''Microsoft.Network/applicationGateways''), (''apiVersion'', JStr ''2022-08-01''),
           (''name'', JStr (res_name a)), (''location'', get_or after ''location'' (JStr ''eastus'')),
           (''sku'', JObj [(''name'', get_or after ''sku_name'' (JStr ''WAF_v2'')), (''tier'', JStr ''WAF'')])]"
      by (simp add: Let_def)
    with agw t a af show ?thesis by (simp add: template_of_def)
  next
    case lb
    with assms gen have "template = template_of
          [(''type'', JStr ''Microsoft.Network/loadBalancers''), (''apiVersion'', JStr ''2022-08-01''),
           (''name'', JStr (res_name a)), (''location'', get_or after ''location'' (JStr ''eastus'')),
           (''sku'', JObj [(''name'', get_or after ''sku'' (JStr ''Standard''))])]"
      by (simp add: Let_def)
    with lb t a af show ?thesis by (simp add: template_of_def)
  next
    case bastion
    with assms gen have "template = template_of
          [(''type'', JStr ''Microsoft.Network/bastionHosts''), (''apiVersion'', JStr ''2022-08-01''),
           (''name'', JStr (res_name a)), (''location'', get_or after ''location'' (JStr ''eastus''))]"
      by (simp add: Let_def)
    with bastion t a af show ?thesis by (simp add: template_of_def)
  next
    case other
    with assms gen show ?thesis by (simp add: Let_def)
  qed
qed

theorem descriptor_is_minimal_witness:
  "\<exists>res t a after.
      JObj [(''$schema'',
             JStr ''https://schema.management.azure.com/schemas/2019-04-01/deploymentTemplate.json#''),
            (''contentVersion'', JStr ''1.0.0.0''),
            (''resources'',
             JArr [JObj [(''type'', JStr ''Microsoft.Network/bastionHosts''),
                         (''apiVersion'', JStr ''2022-08-01''),
                         (''name'', JStr ''module-hub-azurerm_bastion_host-jump''),
                         (''location'', JStr ''eastus'')]])]
       = JObj [(''$schema'',
                        JStr ''https://schema.management.azure.com/schemas/2019-04-01/deploymentTemplate.json#''),
                       (''contentVersion'', JStr ''1.0.0.0''),
                       (''resources'', JArr [JObj res])]
    \<and> subscript example_bastion_no_location ''type'' = Inr (JStr t)
    \<and> subscript example_bastion_no_location ''address'' = Inr (JStr a)
    \<and> change_after example_bastion_no_location = Inr (JObj after)
    \<and> res = [(''type'', JStr (if t = ''azurerm_firewall'' then ''Microsoft.Network/azureFirewalls''
                               else if t = ''azurerm_application_gateway''
                                 then ''Microsoft.Network/applicationGateways''
                               else if t = ''azurerm_lb'' then ''Microsoft.Network/loadBalancers''
                               else ''Microsoft.Network/bastionHosts'')),
              (''apiVersion'', JStr ''2022-08-01''),
              (''name'', JStr (res_name a)),
              (''location'', get_or after ''location'' (JStr ''eastus''))]
            @ (if t = ''azurerm_firewall''
                 then [(''sku'', JObj [(''name'', get_or after ''sku_name'' (JStr ''AZFW_VNet'')),
                                       (''tier'', JStr ''Standard'')])]
               else if t = ''azurerm_application_gateway''
                 then [(''sku'', JObj [(''name'', get_or after ''sku_name'' (JStr ''WAF_v2'')),
                                       (''tier'', JStr ''WAF'')])]
               else if t = ''azurerm_lb''
                 then [(''sku'', JObj [(''name'', get_or after ''sku'' (JStr ''Standard''))])]
               else [])
    \<and> set (map fst res) \<subseteq> {''type'', ''apiVersion'', ''name'', ''location'', ''sku''}"
proof (rule descriptor_is_minimal)
  show "generate_arm_template example_bastion_no_location =
     Inr (JObj [(''$schema'',
             JStr ''https://schema.management.azure.com/schemas/2019-04-01/deploymentTemplate.json#''),
            (''contentVersion'', JStr ''1.0.0.0''),
            (''resources'',
             JArr [JObj [(''type'', JStr ''Microsoft.Network/bastionHosts''),
                         (''apiVersion'', JStr ''2022-08-01''),
                         (''name'', JStr ''module-hub-azurerm_bastion_host-jump''),
                         (''location'', JStr ''eastus'')]])])"
    by (simp add: example_bastion_no_location_def generate_arm_template_def change_after_def
          template_of_def replace_char_def get_or_def)
qed

text \<open>
  C7. For a record of one of the four kinds with a string address and a dict \<open>after\<close>,
  \<open>generate_arm_template\<close> returns a descriptor, and the location of its resource is
  the value of \<open>location\<close> in \<open>after\<close> when \<open>after\<close> has that key, and \<open>eastus\<close> when it
  has not.
\<close>

theorem location_defaults_to_fallback:
  assumes "subscript resource ''type'' = Inr t"
    and "t \<in> {JStr ''azurerm_firewall'', JStr ''azurerm_application_gateway'',
               JStr ''azurerm_lb'', JStr ''azurerm_bastion_host''}"
    and "subscript resource ''address'' = Inr (JStr a)"
    and "change_after resource = Inr (JObj after)"
  shows "\<exists>template res.
           generate_arm_template resource = Inr template
         \<and> subscript template ''resources'' = Inr (JArr [JObj res])
         \<and> subscript (JObj res) ''location'' =
             Inr (case map_of after ''location'' of None \<Rightarrow> JStr ''eastus'' | Some v \<Rightarrow> v)"
  using assms(2) generate_arm_template_wf [OF assms(1,3,4)]
  by (auto simp: Let_def get_or_def)

theorem location_defaults_to_fallback_witness:
  "\<exists>template res.
     generate_arm_template example_bastion_no_location = Inr template
   \<and> subscript template ''resources'' = Inr (JArr [JObj res])
   \<and> subscript (JObj res) ''location'' = Inr (JStr ''eastus'')"
  using location_defaults_to_fallback [of example_bastion_no_location "JStr ''azurerm_bastion_host''"
      "''module.hub.azurerm_bastion_host.jump''" "[(''name'', JStr ''jump'')]"]
  by (simp add: example_bastion_no_location_def change_after_def)

text \<open>
  C8. When the loop selects none of the records of the plan, the run ends with an empty
  list of errors and no validation call, prints the line of a passed run and exits with
  status 0.
\<close>

theorem no_in_scope_resources_pass:
  assumes "dict_get plan ''resource_changes'' (JArr []) = Inr (JArr resources)"
    and "\<forall>r\<in>set resources. in_scope r = Inr False"
  shows "preflight w sub plan =
           Inr (\<lparr>errors = [], calls = []\<rparr>,
                [''Pre-flight validation passed for all high-risk resources!''], 0)"
  using assms
  by (simp add: preflight_def validate_loop_none_selected verdict_def)

theorem no_in_scope_resources_pass_witness:
  "preflight \<lparr>uuid4 = (\<lambda>n. []), answer = (\<lambda>n url body. No_response)\<rparr> ''sub''
     (JObj [(''resource_changes'', JArr [example_lb_delete, example_vnet])]) =
   Inr (\<lparr>errors = [], calls = []\<rparr>,
        [''Pre-flight validation passed for all high-risk resources!''], 0)"
proof (rule no_in_scope_resources_pass [where resources = "[example_lb_delete, example_vnet]"])
  show "dict_get (JObj [(''resource_changes'', JArr [example_lb_delete, example_vnet])])
          ''resource_changes'' (JArr []) = Inr (JArr [example_lb_delete, example_vnet])"
    by (simp add: get_or_def)
  show "\<forall>r\<in>set [example_lb_delete, example_vnet]. in_scope r = Inr False"
    by (simp add: example_lb_delete_def example_vnet_def in_scope_def py_set_def
          intersection_def HIGH_RISK_RESOURCES_def VALID_ACTIONS_def get_or_def)
qed

text \<open>
  C9. The types the loop selects are the four types the dispatch of
  \<open>generate_arm_template\<close> knows. For a record of a selected type the function never
  raises the ValueError of an unknown type; for a record with a string address and a
  dict \<open>after\<close> it raises that error exactly when the type is not one the loop selects.
  So no iteration of the loop and no run ends with that error.
\<close>

theorem unknown_kind_branch_unreachable:
  assumes "subscript resource ''type'' = Inr t"
  shows "(py_in t HIGH_RISK_RESOURCES \<longleftrightarrow>
            t \<in> {JStr ''azurerm_firewall'', JStr ''azurerm_application_gateway'',
                  JStr ''azurerm_lb'', JStr ''azurerm_bastion_host''})
       \<and> (py_in t HIGH_RISK_RESOURCES \<longrightarrow> (\<forall>m. generate_arm_template resource \<noteq> Inl (ValueError m)))
       \<and> (\<forall>a after. subscript resource ''address'' = Inr (JStr a)
              \<and> change_after resource = Inr (JObj after) \<longrightarrow>
            ((\<exists>m. generate_arm_template resource = Inl (ValueError m))
               \<longleftrightarrow> \<not> py_in t HIGH_RISK_RESOURCES))
       \<and> (\<forall>m. step w sub resource st \<noteq> Inl (ValueError m))
       \<and> (\<forall>m. preflight w sub plan \<noteq> Inl (ValueError m))"
proof (intro conjI allI impI)
  show hr: "py_in t HIGH_RISK_RESOURCES \<longleftrightarrow>
            t \<in> {JStr ''azurerm_firewall'', JStr ''azurerm_application_gateway'',
                  JStr ''azurerm_lb'', JStr ''azurerm_bastion_host''}"
    by (auto simp: py_in_iff HIGH_RISK_RESOURCES_def)
  show "generate_arm_template resource \<noteq> Inl (ValueError m)" if "py_in t HIGH_RISK_RESOURCES" for m
    using that assms generate_arm_template_ValueError_D [of resource m] by auto
  show "(\<exists>m. generate_arm_template resource = Inl (ValueError m)) \<longleftrightarrow> \<not> py_in t HIGH_RISK_RESOURCES"
    if "subscript resource ''address'' = Inr (JStr a) \<and> change_after resource = Inr (JObj after)"
    for a after
  proof -
    from that have a: "subscript resource ''address'' = Inr (JStr a)"
      and af: "change_after resource = Inr (JObj after)" by simp_all
    show ?thesis
      unfolding generate_arm_template_wf [OF assms a af] hr by (auto simp: Let_def)
  qed
  show "step w sub resource st \<noteq> Inl (ValueError m)" for m
    by (rule step_not_ValueError)
  show "preflight w sub plan \<noteq> Inl (ValueError m)" for m
    by (rule preflight_not_ValueError)
qed

theorem unknown_kind_branch_unreachable_witness:
  "py_in (JStr ''azurerm_firewall'') HIGH_RISK_RESOURCES
   \<and> (\<forall>m. generate_arm_template example_firewall \<noteq> Inl (ValueError m))
   \<and> (\<forall>m. preflight rejecting_world ''sub'' example_plan \<noteq> Inl (ValueError m))"
proof -
  have t: "subscript example_firewall ''type'' = Inr (JStr ''azurerm_firewall'')"
    by (simp add: example_firewall_def)
  from unknown_kind_branch_unreachable [OF t, of rejecting_world "''sub''" _ example_plan]
  show ?thesis by simp
qed

text \<open>
  C10. For a selected record whose \<open>change\<close> has no \<open>after\<close>, or whose \<open>after\<close> is null,
  \<open>generate_arm_template\<close> raises, and so does the iteration of the loop: a KeyError
  for the missing key and an AttributeError for null, when the address is a string. The
  defaults are applied to attributes missing in a dict \<open>after\<close> only.
\<close>

theorem synthesis_requires_after_mapping:
  assumes "in_scope resource = Inr True"
    and "subscript resource ''change'' = Inr (JObj change)"
    and "map_of change ''after'' = None \<or> map_of change ''after'' = Some JNull"
  shows "\<exists>e. generate_arm_template resource = Inl e
           \<and> step w sub resource st = Inl e
           \<and> (\<forall>a. subscript resource ''address'' = Inr (JStr a) \<longrightarrow>
                  e = (if map_of change ''after'' = None then KeyError ''after''
                       else AttributeError))"
proof -
  from in_scope_Inr_D [OF assms(1)] obtain t where t: "subscript resource ''type'' = Inr t"
    by auto
  have no_map: "\<forall>after. change_after resource \<noteq> Inr (JObj after)"
    using assms(2,3) by (auto simp: change_after_def)
  with generate_arm_template_early_error [of resource]
  obtain e where e: "generate_arm_template resource = Inl e" by auto
  have "e = (if map_of change ''after'' = None then KeyError ''after'' else AttributeError)"
    if "subscript resource ''address'' = Inr (JStr a)" for a
    using e t that assms(2,3)
    by (auto simp: generate_arm_template_def change_after_def)
  with e step_synthesis_error [OF assms(1) e] show ?thesis by blast
qed

theorem synthesis_requires_after_mapping_witness:
  "\<exists>e. generate_arm_template example_lb_no_after = Inl e
       \<and> step rejecting_world ''sub'' example_lb_no_after \<lparr>errors = [], calls = []\<rparr> = Inl e
       \<and> (\<forall>a. subscript example_lb_no_after ''address'' = Inr (JStr a) \<longrightarrow>
                  e = (if map_of [(''actions'', JArr [JStr ''create''])] ''after'' = None
                       then KeyError ''after'' else AttributeError))"
proof (rule synthesis_requires_after_mapping)
  show "in_scope example_lb_no_after = Inr True"
    by (simp add: example_lb_no_after_def in_scope_def py_set_def intersection_def
          HIGH_RISK_RESOURCES_def VALID_ACTIONS_def get_or_def)
  show "subscript example_lb_no_after ''change'' = Inr (JObj [(''actions'', JArr [JStr ''create''])])"
    by (simp add: example_lb_no_after_def)
  show "map_of [(''actions'', JArr [JStr ''create''])] ''after'' = None
        \<or> map_of [(''actions'', JArr [JStr ''create''])] ''after'' = Some JNull"
    by simp
qed

end
